theory Spec2Isabelle
  imports Main "HOL-Library.Word"
begin

unbundle bit_operations_syntax

section \<open>Data model of lithdat\<close>

text \<open>
  The structs of the Go program, one record each, in the order and with the field names
  of the source.  A \<open>uintN\<close> or \<open>intN\<close> is an \<open>N word\<close>.  A \<open>float32\<close> is
  its 32 bits in memory, 0 for the zero value: the program only moves floats from the
  file into fields and never computes with them.  A Go \<open>string\<close> is a
  sequence of bytes, a slice is a list (the nil slice is the empty list), a fixed array
  \<open>[n]T\<close> is a list of length \<open>n\<close>.
  Field names that several structs share are told apart by the record's name, as in
  \<open>PROPERTY.Name\<close>.
\<close>

type_synonym byte = "8 word"
type_synonym uint16 = "16 word"
type_synonym uint32 = "32 word"
type_synonym int32 = "32 word"
type_synonym float32 = "32 word"
type_synonym gostring = "byte list"

record SURFACE =
  Flags :: uint32
  TextureIndex :: uint16
  TextureFlags :: uint16

record VEC2 =
  X :: float32
  Y :: float32

record VEC3 =
  X :: float32
  Y :: float32
  Z :: float32

record COLOR =
  R :: float32
  G :: float32
  B :: float32

record QUATERNION =
  X :: float32
  Y :: float32
  Z :: float32
  W :: float32

record TRIANGLE =
  T :: "uint32 list"
  PolyIndex :: uint32

record PLANE =
  Normal :: VEC3
  Dist :: float32

record VERTEX =
  VPos :: VEC3
  Uv0 :: VEC2
  Uv1 :: VEC2
  Color :: int32
  VNormal :: VEC3
  VTangent :: VEC3
  VBinormal :: VEC3

record POLYGON =
  Plane :: PLANE
  VertLen :: uint32
  VertPos :: "VEC3 list"

record WMPOLYGON =
  SurfaceIndex :: uint32
  PlaneIndex :: uint32
  VerticesIndicies :: "uint32 list"

record WMNODE =
  PolyIndex :: uint32
  Zero :: uint32
  NodeSidesIndicies :: "int32 list"

record WORLDMODEL =
  Dummy :: uint32
  WorldInfoFlags :: uint32
  WorldName :: gostring
  PointsLen :: uint32
  PlanesLen :: uint32
  SurfacesLen :: uint32
  Portals :: uint32
  PoliesLen :: uint32
  LeavesLen :: uint32
  PoliesVerticesLen :: uint32
  VisibleListLen :: uint32
  LeafList :: uint32
  NodesLen :: uint32
  WorldBBoxMin :: VEC3
  WorldBBoxMax :: VEC3
  WorldTranslation :: VEC3
  TextureNamesSize :: uint32
  TextureNamesLen :: uint32
  TextureNames :: "gostring list"
  VerticesLen :: "byte list"
  Planes :: "PLANE list"
  Surfaces :: "SURFACE list"
  Polies :: "WMPOLYGON list"
  Nodes :: "WMNODE list"
  Points :: "VEC3 list"
  RootNodeIndex :: int32
  Sections :: uint32

record WORLDTREE =
  RootBBoxMin :: VEC3
  RootBBoxMax :: VEC3
  SubNodesLen :: uint32
  TerrainDepth :: uint32
  WorldLayout :: "byte list"
  WorldModelsLen :: uint32
  WorldModels :: "WORLDMODEL list"

record PROPERTY =
  Name :: gostring
  DataTypeFlag :: byte
  PropertyFlags :: uint32
  DataSize :: uint16
  DataString :: gostring
  DataVEC3 :: VEC3
  DataCOLOR :: COLOR
  DataFloat :: float32
  DataBool :: bool
  DataUint32 :: uint32
  DataQuaternion :: QUATERNION
  Data :: "byte list"

record WORLDOBJECT =
  ObjectSize :: uint16
  ObjectType :: gostring
  PropertiesLen :: uint32
  Properties :: "PROPERTY list"

record LIGHTGRID =
  LookupStart :: VEC3
  BlockSize :: VEC3
  LookupSize :: "uint32 list"
  LgDataLen :: uint32
  LgData :: "byte list"

record VERTICESPOS =
  Len :: byte
  Data :: "VEC3 list"

record SKYPORTAL =
  VerticesPos :: VERTICESPOS
  Plane :: PLANE

record OCCLUDER =
  VerticesPos :: VERTICESPOS
  Plane :: PLANE
  Other :: uint32

record SECTION =
  TextureName :: "gostring list"
  ShaderCode :: byte
  TriangleCount :: uint32
  TextureEffect :: gostring
  LightMapWidth :: uint32
  LightMapHeight :: uint32
  LightMapSize :: uint32
  LightMapData :: "byte list"

record SUBLM =
  Left :: uint32
  Top :: uint32
  Width :: uint32
  Height :: uint32
  DataLen :: uint32
  Data :: "byte list"

record SECTIONLM =
  SubLMLen :: uint32
  Sublm :: "SUBLM list"

record LIGHTGROUP =
  Name :: gostring
  VColor :: VEC3
  NIntensitySize :: uint32
  ZeroCompressedIntensityData :: "byte list"
  SectionLMLen :: uint32
  Sectionlm :: "SECTIONLM list"

record RENDERNODE =
  VCenter :: VEC3
  VHalfDims :: VEC3
  SectionLen :: uint32
  Sections :: "SECTION list"
  VericesLen :: uint32
  Vertices :: "VERTEX list"
  TrianglesLen :: uint32
  Triangles :: "TRIANGLE list"
  SkyPortalLen :: uint32
  Skyportals :: "SKYPORTAL list"
  OccluderLen :: uint32
  Occluders :: "OCCLUDER list"
  LightGroupLen :: uint32
  LightGroups :: "LIGHTGROUP list"
  ChildFlags :: byte
  ChildNodeIndicies :: "uint32 list"

record WMRENDERNODE =
  Name :: gostring
  NodesLen :: uint32
  Nodes :: "RENDERNODE list"
  NoChildFlag :: uint32

record WORLDLIGHTGROUP =
  Name :: gostring
  Color :: VEC3
  VOffset :: VEC3
  VSize :: VEC3
  Data :: "byte list"

record RENDERDATA =
  RenderTreeNodesLen :: uint32
  RenderNodes :: "RENDERNODE list"
  WorldModelNodesLen :: uint32
  WorldModelRenderNotes :: "WMRENDERNODE list"
  LightGroupsLen :: uint32
  LightGroups :: "WORLDLIGHTGROUP list"

record HEADER =
  Version :: uint32
  ObjectDataPos :: uint32
  BlindObjectDataPos :: uint32
  LightgridPos :: uint32
  CollisionDataPos :: uint32
  ParticleBlockerDataPos :: uint32
  RenderDataPos :: uint32
  PackerType :: uint32
  PackerVersion :: uint32
  Future :: "uint32 list"

record BLINDOBJECTDATA =
  Len :: uint32
  DataID :: uint32
  Data :: "byte list"

record WORLD =
  WorldInfoStrLen :: uint32
  WorldInfoStr :: gostring
  WorldExtentsMin :: VEC3
  WorldExtentsMax :: VEC3
  WorldOffset :: VEC3
  WorldTree :: WORLDTREE
  WorldObjectsLen :: uint32
  WorldObjects :: "WORLDOBJECT list"
  BlindObjectDataSize :: uint32
  BlindObjectsData :: "BLINDOBJECTDATA list"
  LightGrid :: LIGHTGRID
  PhysicsDataLen :: uint32
  Polies :: "POLYGON list"
  Zero :: uint32
  ParticleBlockerDataLen :: uint32
  ParticleBlockers :: "POLYGON list"
  Zero2 :: uint32
  RenderData :: RENDERDATA


subsection \<open>Zero values\<close>

text \<open>
  Go initialises \<open>var x T\<close> to the zero value of \<open>T\<close>: numbers 0, \<open>false\<close>, the
  empty string, the nil slice, and field by field for structs and arrays.
\<close>

definition zero_VEC3 :: VEC3 where
  "zero_VEC3 = \<lparr>VEC3.X = 0, VEC3.Y = 0, VEC3.Z = 0\<rparr>"

definition zero_COLOR :: COLOR where
  "zero_COLOR = \<lparr>R = 0, G = 0, B = 0\<rparr>"

definition zero_QUATERNION :: QUATERNION where
  "zero_QUATERNION = \<lparr>QUATERNION.X = 0, QUATERNION.Y = 0, QUATERNION.Z = 0, W = 0\<rparr>"

definition zero_WORLDTREE :: WORLDTREE where
  "zero_WORLDTREE = \<lparr>RootBBoxMin = zero_VEC3, RootBBoxMax = zero_VEC3, SubNodesLen = 0,
     TerrainDepth = 0, WorldLayout = [], WorldModelsLen = 0, WorldModels = []\<rparr>"

definition zero_PROPERTY :: PROPERTY where
  "zero_PROPERTY = \<lparr>PROPERTY.Name = [], DataTypeFlag = 0, PropertyFlags = 0, DataSize = 0,
     DataString = [], DataVEC3 = zero_VEC3, DataCOLOR = zero_COLOR, DataFloat = 0,
     DataBool = False, DataUint32 = 0, DataQuaternion = zero_QUATERNION, PROPERTY.Data = []\<rparr>"

definition zero_WORLDOBJECT :: WORLDOBJECT where
  "zero_WORLDOBJECT = \<lparr>ObjectSize = 0, ObjectType = [], PropertiesLen = 0, Properties = []\<rparr>"

definition zero_LIGHTGRID :: LIGHTGRID where
  "zero_LIGHTGRID = \<lparr>LookupStart = zero_VEC3, BlockSize = zero_VEC3, LookupSize = [0, 0, 0],
     LgDataLen = 0, LgData = []\<rparr>"

definition zero_RENDERDATA :: RENDERDATA where
  "zero_RENDERDATA = \<lparr>RenderTreeNodesLen = 0, RenderNodes = [], WorldModelNodesLen = 0,
     WorldModelRenderNotes = [], LightGroupsLen = 0, RENDERDATA.LightGroups = []\<rparr>"

definition zero_HEADER :: HEADER where
  "zero_HEADER = \<lparr>Version = 0, ObjectDataPos = 0, BlindObjectDataPos = 0, LightgridPos = 0,
     CollisionDataPos = 0, ParticleBlockerDataPos = 0, RenderDataPos = 0, PackerType = 0,
     PackerVersion = 0, Future = [0, 0, 0, 0, 0, 0]\<rparr>"

definition zero_WORLD :: WORLD where
  "zero_WORLD = \<lparr>WorldInfoStrLen = 0, WorldInfoStr = [], WorldExtentsMin = zero_VEC3,
     WorldExtentsMax = zero_VEC3, WorldOffset = zero_VEC3, WorldTree = zero_WORLDTREE,
     WorldObjectsLen = 0, WorldObjects = [], BlindObjectDataSize = 0, BlindObjectsData = [],
     LightGrid = zero_LIGHTGRID, PhysicsDataLen = 0, WORLD.Polies = [], WORLD.Zero = 0,
     ParticleBlockerDataLen = 0, ParticleBlockers = [], Zero2 = 0,
     RenderData = zero_RENDERDATA\<rparr>"

section \<open>The process: an open file, standard output, and what was done to them\<close>

text \<open>
  What \<open>main\<close> does besides computing values is reading and seeking in \<open>worldFile\<close>
  and printing.  The state carries the file (its bytes, its offset, and whether the
  operating system lets it seek: a regular file does, a pipe does not) and the trace of
  every such effect in program order.

  A printed line is kept as the values handed to \<open>fmt.Println\<close> or \<open>fmt.Printf\<close>,
  not as formatted text.
\<close>

datatype out_item =
    OutHeader HEADER
  | OutValue string uint32
  | OutSeekError uint32
  | OutPropertyCount gostring uint32
  | OutProperty PROPERTY
  | OutUint32 uint32

datatype event =
    EvRead nat nat
  | EvSeek nat
  | EvSeekFailed nat
  | EvPrint out_item

record state =
  contents :: "byte list"
  seekable :: bool
  offset :: nat
  trace :: "event list"

datatype error = Exit1

definition Println :: "out_item \<Rightarrow> state \<Rightarrow> state" where
  "Println x s = s\<lparr>trace := trace s @ [EvPrint x]\<rparr>"

definition Printf :: "out_item \<Rightarrow> state \<Rightarrow> state" where
  "Printf x s = s\<lparr>trace := trace s @ [EvPrint x]\<rparr>"

text \<open>
  \<open>worldFile.Seek(int64(off), io.SeekStart)\<close> is \<open>lseek(2)\<close>: on a regular file it
  accepts every non-negative offset, also one past the end of the data, and makes it the
  offset of the next read; on a file that cannot seek (a pipe) it fails and changes
  nothing.  The result tells whether \<open>err\<close> is nil.  \<open>EvSeek n\<close> is a seek that set the
  offset to \<open>n\<close>.
\<close>

definition Seek :: "uint32 \<Rightarrow> state \<Rightarrow> bool \<times> state" where
  "Seek off s =
     (if seekable s
      then (True, s\<lparr>offset := unat off, trace := trace s @ [EvSeek (unat off)]\<rparr>)
      else (False, s\<lparr>trace := trace s @ [EvSeekFailed (unat off)]\<rparr>))"

text \<open>
  \<open>io.ReadFull(file, buf)\<close> with \<open>len(buf) = n\<close>: the file hands over the bytes from
  its offset on; with \<open>n\<close> of them there the buffer is filled, with fewer the call returns
  an error (\<open>io.EOF\<close> or \<open>io.ErrUnexpectedEOF\<close>) and the offset stays behind the
  last byte it got.  \<open>EvRead n k\<close> is a read that asked for \<open>n\<close> bytes and got \<open>k\<close>.
\<close>

definition ReadFull :: "nat \<Rightarrow> state \<Rightarrow> byte list option \<times> state" where
  "ReadFull n s =
     (let rest = drop (offset s) (contents s) in
      if n \<le> length rest
      then (Some (take n rest), s\<lparr>offset := offset s + n, trace := trace s @ [EvRead n n]\<rparr>)
      else (None, s\<lparr>offset := offset s + length rest,
                     trace := trace s @ [EvRead n (length rest)]\<rparr>))"

subsection \<open>encoding/binary\<close>

text \<open>\<open>binary.LittleEndian.Uint16\<close> and \<open>Uint32\<close>.\<close>

definition Uint16 :: "byte list \<Rightarrow> uint16" where
  "Uint16 b = ucast (b ! 0) OR push_bit 8 (ucast (b ! 1))"

definition Uint32 :: "byte list \<Rightarrow> uint32" where
  "Uint32 b = ucast (b ! 0) OR push_bit 8 (ucast (b ! 1)) OR push_bit 16 (ucast (b ! 2))
     OR push_bit 24 (ucast (b ! 3))"

text \<open>
  \<open>binary.Read(file, binary.LittleEndian, &dst)\<close>, one function for each type of
  \<open>dst\<close> the program reads into.  It reads the size of \<open>dst\<close> with \<open>io.ReadFull\<close>;
  on an error it returns the error and leaves \<open>dst\<close> as it was, which the first argument
  stands for.  The program drops the error of every \<open>binary.Read\<close> (\<open>_ = ...\<close>), so
  the functions do not return it.
\<close>

definition Read_uint8 :: "byte \<Rightarrow> state \<Rightarrow> byte \<times> state" where
  "Read_uint8 dst s = (case ReadFull 1 s of (Some b, s') \<Rightarrow> (b ! 0, s') | (None, s') \<Rightarrow> (dst, s'))"

definition Read_bool :: "bool \<Rightarrow> state \<Rightarrow> bool \<times> state" where
  "Read_bool dst s = (case ReadFull 1 s of (Some b, s') \<Rightarrow> (b ! 0 \<noteq> 0, s') | (None, s') \<Rightarrow> (dst, s'))"

definition Read_uint16 :: "uint16 \<Rightarrow> state \<Rightarrow> uint16 \<times> state" where
  "Read_uint16 dst s = (case ReadFull 2 s of (Some b, s') \<Rightarrow> (Uint16 b, s') | (None, s') \<Rightarrow> (dst, s'))"

definition Read_uint32 :: "uint32 \<Rightarrow> state \<Rightarrow> uint32 \<times> state" where
  "Read_uint32 dst s = (case ReadFull 4 s of (Some b, s') \<Rightarrow> (Uint32 b, s') | (None, s') \<Rightarrow> (dst, s'))"

definition Read_float32 :: "float32 \<Rightarrow> state \<Rightarrow> float32 \<times> state" where
  "Read_float32 dst s = (case ReadFull 4 s of (Some b, s') \<Rightarrow> (Uint32 b, s') | (None, s') \<Rightarrow> (dst, s'))"

text \<open>
  Into a \<open>*float32\<close> \<open>binary.Read\<close> stores \<open>math.Float32frombits\<close> of the four
  bytes: the bits as they are.  Into a pointer to a struct it goes through reflection:
  each \<open>float32\<close> field is set by
  \<open>v.SetFloat(float64(math.Float32frombits(d.uint32())))\<close>, that is converted to
  \<open>float64\<close> and back.  That round trip keeps every number, both zeros and both
  infinities, and of a NaN (exponent bits all set, fraction not zero) it keeps the sign and
  the fraction and sets the quiet bit \<open>0x00400000\<close>, as the conversions of amd64 and
  arm64 do.
\<close>

definition viaFloat64 :: "float32 \<Rightarrow> float32" where
  "viaFloat64 x =
     (if x AND 0x7F800000 = 0x7F800000 \<and> x AND 0x007FFFFF \<noteq> 0 then x OR 0x00400000 else x)"

definition Read_VEC3 :: "VEC3 \<Rightarrow> state \<Rightarrow> VEC3 \<times> state" where
  "Read_VEC3 dst s =
     (case ReadFull 12 s of
        (Some b, s') \<Rightarrow> (\<lparr>VEC3.X = viaFloat64 (Uint32 (take 4 b)),
                          VEC3.Y = viaFloat64 (Uint32 (take 4 (drop 4 b))),
                          VEC3.Z = viaFloat64 (Uint32 (take 4 (drop 8 b)))\<rparr>, s')
      | (None, s') \<Rightarrow> (dst, s'))"

definition Read_COLOR :: "COLOR \<Rightarrow> state \<Rightarrow> COLOR \<times> state" where
  "Read_COLOR dst s =
     (case ReadFull 12 s of
        (Some b, s') \<Rightarrow> (\<lparr>R = viaFloat64 (Uint32 (take 4 b)),
                          G = viaFloat64 (Uint32 (take 4 (drop 4 b))),
                          B = viaFloat64 (Uint32 (take 4 (drop 8 b)))\<rparr>, s')
      | (None, s') \<Rightarrow> (dst, s'))"

definition Read_QUATERNION :: "QUATERNION \<Rightarrow> state \<Rightarrow> QUATERNION \<times> state" where
  "Read_QUATERNION dst s =
     (case ReadFull 16 s of
        (Some b, s') \<Rightarrow> (\<lparr>QUATERNION.X = viaFloat64 (Uint32 (take 4 b)),
                          QUATERNION.Y = viaFloat64 (Uint32 (take 4 (drop 4 b))),
                          QUATERNION.Z = viaFloat64 (Uint32 (take 4 (drop 8 b))),
                          W = viaFloat64 (Uint32 (take 4 (drop 12 b)))\<rparr>, s')
      | (None, s') \<Rightarrow> (dst, s'))"

text \<open>Reading into \<open>&buf\<close> for a byte slice: as many bytes as the slice is long.\<close>

definition Read_bytes :: "byte list \<Rightarrow> state \<Rightarrow> byte list \<times> state" where
  "Read_bytes dst s =
     (case ReadFull (length dst) s of (Some b, s') \<Rightarrow> (b, s') | (None, s') \<Rightarrow> (dst, s'))"

section \<open>The decoder\<close>

text \<open>
  \<open>readLithSTRING\<close>: a 16-bit size, a zeroed buffer of that size (\<open>make([]byte, size)\<close>),
  one read into the buffer, and the buffer as the string.
\<close>

definition readLithSTRING :: "state \<Rightarrow> gostring \<times> state" where
  "readLithSTRING s =
     (let (size, s1) = Read_uint16 0 s;
          (buf, s2) = Read_bytes (replicate (unat size) 0) s1
      in (buf, s2))"


subsection \<open>One property\<close>

text \<open>
  The \<open>switch property.DataTypeFlag\<close> of the inner loop.  It has the cases 0, 1, 2, 3,
  5, 6, 7 and no default: for any other flag it does nothing.
\<close>

definition propertyPayload :: "PROPERTY \<Rightarrow> state \<Rightarrow> PROPERTY \<times> state" where
  "propertyPayload p s =
     (if DataTypeFlag p = 0 then
        (let (v, s') = readLithSTRING s in (p\<lparr>DataString := v\<rparr>, s'))
      else if DataTypeFlag p = 1 then
        (let (v, s') = Read_VEC3 (DataVEC3 p) s in (p\<lparr>DataVEC3 := v\<rparr>, s'))
      else if DataTypeFlag p = 2 then
        (let (v, s') = Read_COLOR (DataCOLOR p) s in (p\<lparr>DataCOLOR := v\<rparr>, s'))
      else if DataTypeFlag p = 3 then
        (let (v, s') = Read_float32 (DataFloat p) s in (p\<lparr>DataFloat := v\<rparr>, s'))
      else if DataTypeFlag p = 5 then
        (let (v, s') = Read_bool (DataBool p) s in (p\<lparr>DataBool := v\<rparr>, s'))
      else if DataTypeFlag p = 6 then
        (let (v, s') = Read_uint32 (DataUint32 p) s in (p\<lparr>DataUint32 := v\<rparr>, s'))
      else if DataTypeFlag p = 7 then
        (let (v, s') = Read_QUATERNION (DataQuaternion p) s in (p\<lparr>DataQuaternion := v\<rparr>, s'))
      else (p, s))"

text \<open>
  The body of the inner loop up to the \<open>switch\<close>: a fresh \<open>PROPERTY\<close>, its name, type
  flag, flags and size, then the payload.
\<close>

definition parseProperty :: "state \<Rightarrow> PROPERTY \<times> state" where
  "parseProperty s =
     (let p0 = zero_PROPERTY;
          (name, s1) = readLithSTRING s; p1 = p0\<lparr>PROPERTY.Name := name\<rparr>;
          (flag, s2) = Read_uint8 (DataTypeFlag p1) s1; p2 = p1\<lparr>DataTypeFlag := flag\<rparr>;
          (pflags, s3) = Read_uint32 (PropertyFlags p2) s2; p3 = p2\<lparr>PropertyFlags := pflags\<rparr>;
          (size, s4) = Read_uint16 (DataSize p3) s3; p4 = p3\<lparr>DataSize := size\<rparr>
      in propertyPayload p4 s4)"

subsection \<open>World objects\<close>

text \<open>
  \<open>for range worldObject.PropertiesLen\<close>: the count is evaluated once, the body runs
  that many times; each run decodes a property, prints it and appends it.
\<close>

fun propertiesLoop :: "nat \<Rightarrow> WORLDOBJECT \<Rightarrow> state \<Rightarrow> WORLDOBJECT \<times> state" where
  "propertiesLoop 0 wo s = (wo, s)"
| "propertiesLoop (Suc n) wo s =
     (let (p, s1) = parseProperty s;
          s2 = Println (OutProperty p) s1
      in propertiesLoop n (wo\<lparr>Properties := Properties wo @ [p]\<rparr>) s2)"

text \<open>The body of the outer loop up to the append.\<close>

definition parseWorldObject :: "state \<Rightarrow> WORLDOBJECT \<times> state" where
  "parseWorldObject s =
     (let wo0 = zero_WORLDOBJECT;
          (osize, s1) = Read_uint16 (ObjectSize wo0) s; wo1 = wo0\<lparr>ObjectSize := osize\<rparr>;
          (otype, s2) = readLithSTRING s1; wo2 = wo1\<lparr>ObjectType := otype\<rparr>;
          (n, s3) = Read_uint32 (PropertiesLen wo2) s2; wo3 = wo2\<lparr>PropertiesLen := n\<rparr>;
          s4 = Println (OutPropertyCount (ObjectType wo3) (PropertiesLen wo3)) s3
      in propertiesLoop (unat (PropertiesLen wo3)) wo3 s4)"

text \<open>\<open>for range world.WorldObjectsLen\<close>.\<close>

fun worldObjectsLoop :: "nat \<Rightarrow> WORLD \<Rightarrow> state \<Rightarrow> WORLD \<times> state" where
  "worldObjectsLoop 0 w s = (w, s)"
| "worldObjectsLoop (Suc n) w s =
     (let (wo, s1) = parseWorldObject s
      in worldObjectsLoop n (w\<lparr>WorldObjects := WorldObjects w @ [wo]\<rparr>) s1)"

subsection \<open>The header\<close>

text \<open>
  Fifteen reads of a \<open>uint32\<close>, one for each field and for each element of \<open>Future\<close>.
  The earlier \<open>lithdat.go\<close> has the same fifteen reads, with its field names in lower
  case, and ends after it has printed the header.
\<close>

definition parseHeader :: "state \<Rightarrow> HEADER \<times> state" where
  "parseHeader s0 =
     (let h0 = zero_HEADER;
          (v1, s1) = Read_uint32 (Version h0) s0; h1 = h0\<lparr>Version := v1\<rparr>;
          (v2, s2) = Read_uint32 (ObjectDataPos h1) s1; h2 = h1\<lparr>ObjectDataPos := v2\<rparr>;
          (v3, s3) = Read_uint32 (BlindObjectDataPos h2) s2; h3 = h2\<lparr>BlindObjectDataPos := v3\<rparr>;
          (v4, s4) = Read_uint32 (LightgridPos h3) s3; h4 = h3\<lparr>LightgridPos := v4\<rparr>;
          (v5, s5) = Read_uint32 (CollisionDataPos h4) s4; h5 = h4\<lparr>CollisionDataPos := v5\<rparr>;
          (v6, s6) = Read_uint32 (ParticleBlockerDataPos h5) s5; h6 = h5\<lparr>ParticleBlockerDataPos := v6\<rparr>;
          (v7, s7) = Read_uint32 (RenderDataPos h6) s6; h7 = h6\<lparr>RenderDataPos := v7\<rparr>;
          (v8, s8) = Read_uint32 (PackerType h7) s7; h8 = h7\<lparr>PackerType := v8\<rparr>;
          (v9, s9) = Read_uint32 (PackerVersion h8) s8; h9 = h8\<lparr>PackerVersion := v9\<rparr>;
          (v10, s10) = Read_uint32 (Future h9 ! 0) s9; h10 = h9\<lparr>Future := (Future h9)[0 := v10]\<rparr>;
          (v11, s11) = Read_uint32 (Future h10 ! 1) s10; h11 = h10\<lparr>Future := (Future h10)[1 := v11]\<rparr>;
          (v12, s12) = Read_uint32 (Future h11 ! 2) s11; h12 = h11\<lparr>Future := (Future h11)[2 := v12]\<rparr>;
          (v13, s13) = Read_uint32 (Future h12 ! 3) s12; h13 = h12\<lparr>Future := (Future h12)[3 := v13]\<rparr>;
          (v14, s14) = Read_uint32 (Future h13 ! 4) s13; h14 = h13\<lparr>Future := (Future h13)[4 := v14]\<rparr>;
          (v15, s15) = Read_uint32 (Future h14 ! 5) s14; h15 = h14\<lparr>Future := (Future h14)[5 := v15]\<rparr>
      in (h15, s15))"

subsection \<open>The sections\<close>

text \<open>
  Each section of \<open>main\<close> seeks to the offset the header gives, prints a line, and leaves
  the program with \<open>os.Exit(1)\<close> when the seek returned an error.  After the seek the
  world objects are decoded; of the blind objects, the physics data and the particle
  blockers one \<open>uint32\<close> is read; for the light grid and the render data nothing is.
  The line of the render data prints \<open>ParticleBlockerDataPos\<close>.
\<close>

definition nl :: string where
  "nl = [CHR 0x0A]"

definition sectionWorldObjects :: "HEADER \<Rightarrow> WORLD \<Rightarrow> state \<Rightarrow> (error + WORLD) \<times> state" where
  "sectionWorldObjects h w s =
     (let (ok, s1) = Seek (ObjectDataPos h) s;
          s2 = Println (OutValue (nl @ ''Parsing WorldObjectsData @'') (ObjectDataPos h)) s1
      in if \<not> ok then (Inl Exit1, Printf (OutSeekError (ObjectDataPos h)) s2)
         else
           (let (n, s3) = Read_uint32 (WorldObjectsLen w) s2; w1 = w\<lparr>WorldObjectsLen := n\<rparr>;
                s4 = Println (OutValue (nl @ ''World Objects:'') (WorldObjectsLen w1)) s3;
                (w2, s5) = worldObjectsLoop (unat (WorldObjectsLen w1)) w1 s4
            in (Inr w2, s5)))"

definition sectionBlindObjects :: "HEADER \<Rightarrow> WORLD \<Rightarrow> state \<Rightarrow> (error + WORLD) \<times> state" where
  "sectionBlindObjects h w s =
     (let (ok, s1) = Seek (BlindObjectDataPos h) s;
          s2 = Println (OutValue (nl @ ''Parsing BlindObjectsData @'') (BlindObjectDataPos h)) s1
      in if \<not> ok then (Inl Exit1, Printf (OutSeekError (BlindObjectDataPos h)) s2)
         else
           (let (n, s3) = Read_uint32 (BlindObjectDataSize w) s2; w1 = w\<lparr>BlindObjectDataSize := n\<rparr>;
                s4 = Println (OutUint32 (BlindObjectDataSize w1)) s3
            in (Inr w1, s4)))"

definition sectionLightgrid :: "HEADER \<Rightarrow> WORLD \<Rightarrow> state \<Rightarrow> (error + WORLD) \<times> state" where
  "sectionLightgrid h w s =
     (let (ok, s1) = Seek (LightgridPos h) s;
          s2 = Println (OutValue (nl @ ''Parsing LightgridData @'') (LightgridPos h)) s1
      in if \<not> ok then (Inl Exit1, Printf (OutSeekError (LightgridPos h)) s2)
         else (Inr w, s2))"

definition sectionPhysics :: "HEADER \<Rightarrow> WORLD \<Rightarrow> state \<Rightarrow> (error + WORLD) \<times> state" where
  "sectionPhysics h w s =
     (let (ok, s1) = Seek (CollisionDataPos h) s;
          s2 = Println (OutValue (nl @ ''Parsing Physics/CollisionData @'') (CollisionDataPos h)) s1
      in if \<not> ok then (Inl Exit1, Printf (OutSeekError (CollisionDataPos h)) s2)
         else
           (let (n, s3) = Read_uint32 (PhysicsDataLen w) s2; w1 = w\<lparr>PhysicsDataLen := n\<rparr>;
                s4 = Println (OutUint32 (PhysicsDataLen w1)) s3
            in (Inr w1, s4)))"

definition sectionParticleBlocker :: "HEADER \<Rightarrow> WORLD \<Rightarrow> state \<Rightarrow> (error + WORLD) \<times> state" where
  "sectionParticleBlocker h w s =
     (let (ok, s1) = Seek (ParticleBlockerDataPos h) s;
          s2 = Println (OutValue (nl @ ''Parsing ParticleBlockerData @'') (ParticleBlockerDataPos h)) s1
      in if \<not> ok then (Inl Exit1, Printf (OutSeekError (ParticleBlockerDataPos h)) s2)
         else
           (let (n, s3) = Read_uint32 (ParticleBlockerDataLen w) s2;
                w1 = w\<lparr>ParticleBlockerDataLen := n\<rparr>;
                s4 = Println (OutUint32 (ParticleBlockerDataLen w1)) s3
            in (Inr w1, s4)))"

definition sectionRenderData :: "HEADER \<Rightarrow> WORLD \<Rightarrow> state \<Rightarrow> (error + WORLD) \<times> state" where
  "sectionRenderData h w s =
     (let (ok, s1) = Seek (RenderDataPos h) s;
          s2 = Println (OutValue (nl @ ''Parsing RenderData @'') (ParticleBlockerDataPos h)) s1
      in if \<not> ok then (Inl Exit1, Printf (OutSeekError (RenderDataPos h)) s2)
         else (Inr w, s2))"

subsection \<open>main\<close>

text \<open>
  \<open>main\<close> from the opened \<open>worldFile\<close> on: the header, its line on standard output, a
  zero \<open>WORLD\<close>, and the six sections in the order of the source.  \<open>Inl Exit1\<close> is
  \<open>os.Exit(1)\<close>; \<open>Inr w\<close> is the return from \<open>main\<close> with \<open>w\<close> the value of the
  variable \<open>world\<close>.  What comes before, the argument list and \<open>os.Open\<close> with its
  own exit, reads nothing of the file and is left out.
\<close>

definition andThen ::
  "(error + WORLD) \<times> state \<Rightarrow> (WORLD \<Rightarrow> state \<Rightarrow> (error + WORLD) \<times> state) \<Rightarrow> (error + WORLD) \<times> state"
where
  "andThen r f = (case r of (Inl e, s) \<Rightarrow> (Inl e, s) | (Inr w, s) \<Rightarrow> f w s)"

definition main :: "state \<Rightarrow> (error + WORLD) \<times> state" where
  "main s =
     (let (worldHeader, s1) = parseHeader s;
          s2 = Println (OutHeader worldHeader) s1;
          world = zero_WORLD
      in andThen (andThen (andThen (andThen (andThen
           (sectionWorldObjects worldHeader world s2)
           (sectionBlindObjects worldHeader))
           (sectionLightgrid worldHeader))
           (sectionPhysics worldHeader))
           (sectionParticleBlocker worldHeader))
           (sectionRenderData worldHeader))"


section \<open>Notions for stating what the decoder does\<close>

text \<open>The bytes from the file offset on, and the little-endian values at a position.\<close>

definition remaining :: "state \<Rightarrow> byte list" where
  "remaining s = drop (offset s) (contents s)"

definition u16at :: "nat \<Rightarrow> byte list \<Rightarrow> uint16" where
  "u16at i bs = Uint16 (take 2 (drop i bs))"

definition u32at :: "nat \<Rightarrow> byte list \<Rightarrow> uint32" where
  "u32at i bs = Uint32 (take 4 (drop i bs))"

text \<open>
  What a read of a \<open>uint32\<close> at position \<open>k\<close> of the bytes \<open>bs\<close> leaves in a
  destination that held \<open>d\<close>, and how many bytes a read of \<open>n\<close> bytes gets there.
\<close>

definition peek32 :: "uint32 \<Rightarrow> nat \<Rightarrow> byte list \<Rightarrow> uint32" where
  "peek32 d k bs = (if k + 4 \<le> length bs then u32at k bs else d)"

definition got :: "nat \<Rightarrow> nat \<Rightarrow> byte list \<Rightarrow> nat" where
  "got n k bs = min n (length bs - k)"

text \<open>The seeks of a trace, its file operations (all but the prints), and its prints.\<close>

fun seeks :: "event list \<Rightarrow> nat list" where
  "seeks [] = []"
| "seeks (EvSeek n # es) = n # seeks es"
| "seeks (e # es) = seeks es"

fun fileOps :: "event list \<Rightarrow> event list" where
  "fileOps [] = []"
| "fileOps (EvPrint x # es) = fileOps es"
| "fileOps (e # es) = e # fileOps es"

fun prints :: "event list \<Rightarrow> out_item list" where
  "prints [] = []"
| "prints (EvPrint x # es) = x # prints es"
| "prints (e # es) = prints es"

text \<open>
  \<open>readsOnly s s'\<close>: from \<open>s\<close> to \<open>s'\<close> the file is the same, the trace has grown at
  its end, and what was added holds no seek.
\<close>

definition readsOnly :: "state \<Rightarrow> state \<Rightarrow> bool" where
  "readsOnly s s' \<longleftrightarrow>
     contents s' = contents s \<and> seekable s' = seekable s \<and>
     take (length (trace s)) (trace s') = trace s \<and>
     seeks (drop (length (trace s)) (trace s')) = []"

subsection \<open>The layout of a property in the words of the specification\<close>

text \<open>
  Sections 4.3, 4.4 and 6 of the specification: a property is a length-prefixed name, a
  \<open>u8\<close> type tag, \<open>u32\<close> flags, a \<open>u16\<close> declared size, and a payload chosen by the
  tag: 0 a length-prefixed string, 1 a Vec3 of 12 bytes, 2 a Color of 12 bytes, 3 an
  \<open>f32\<close> of 4 bytes, 5 a bool of 1 byte, 6 a \<open>u32\<close> of 4 bytes, 7 a Quaternion of
  16 bytes.  \<open>spec_payload_width\<close> and \<open>spec_payload\<close> take the tag and the bytes
  from the payload on; they are compared with the code for these seven tags only.  The
  \<open>f32\<close> of tag 3 is the four bytes as they are; a component of a Vec3, a Color or a
  Quaternion is the \<open>f32\<close> of its four bytes as the decoder holds it, \<open>viaFloat64\<close> of
  them: the same number, and a NaN made quiet.
\<close>

definition spec_payload_width :: "byte \<Rightarrow> byte list \<Rightarrow> nat" where
  "spec_payload_width tag bs =
     (if tag = 0 then 2 + unat (u16at 0 bs)
      else if tag = 1 then 12
      else if tag = 2 then 12
      else if tag = 3 then 4
      else if tag = 5 then 1
      else if tag = 6 then 4
      else if tag = 7 then 16
      else 0)"

definition spec_payload :: "byte \<Rightarrow> byte list \<Rightarrow> PROPERTY \<Rightarrow> PROPERTY" where
  "spec_payload tag bs p =
     (if tag = 0 then p\<lparr>DataString := take (unat (u16at 0 bs)) (drop 2 bs)\<rparr>
      else if tag = 1 then
        p\<lparr>DataVEC3 := \<lparr>VEC3.X = viaFloat64 (u32at 0 bs), VEC3.Y = viaFloat64 (u32at 4 bs),
                       VEC3.Z = viaFloat64 (u32at 8 bs)\<rparr>\<rparr>
      else if tag = 2 then
        p\<lparr>DataCOLOR := \<lparr>R = viaFloat64 (u32at 0 bs), G = viaFloat64 (u32at 4 bs),
                        B = viaFloat64 (u32at 8 bs)\<rparr>\<rparr>
      else if tag = 3 then p\<lparr>DataFloat := u32at 0 bs\<rparr>
      else if tag = 5 then p\<lparr>DataBool := (bs ! 0 \<noteq> 0)\<rparr>
      else if tag = 6 then p\<lparr>DataUint32 := u32at 0 bs\<rparr>
      else if tag = 7 then
        p\<lparr>DataQuaternion :=
            \<lparr>QUATERNION.X = viaFloat64 (u32at 0 bs), QUATERNION.Y = viaFloat64 (u32at 4 bs),
             QUATERNION.Z = viaFloat64 (u32at 8 bs), W = viaFloat64 (u32at 12 bs)\<rparr>\<rparr>
      else p)"

text \<open>
  The fields of a property ahead of its payload, from the bytes \<open>bs\<close> of the record:
  the name of \<open>n\<close> bytes after the two bytes of its length, then tag, flags and size.
\<close>

definition spec_property_head :: "byte list \<Rightarrow> PROPERTY" where
  "spec_property_head bs =
     (let n = unat (u16at 0 bs) in
      zero_PROPERTY\<lparr>PROPERTY.Name := take n (drop 2 bs), DataTypeFlag := bs ! (2 + n),
        PropertyFlags := u32at (3 + n) bs, DataSize := u16at (7 + n) bs\<rparr>)"

subsection \<open>A property record that the end of the file cuts off\<close>

text \<open>
  \<open>endsInside bs\<close>: the bytes \<open>bs\<close>, from the start of a property record to the end
  of the file, end before the record does: inside the length of the name or the name,
  inside the tag, the flags or the declared size, or, for one of the seven tags with a
  payload, inside the payload.

  \<open>cut_fields bs\<close> is what such a record is read as: in the order of the record, every
  field whose bytes are all there has its value and every field after the cut has its zero
  value, but for a string (the name, or the payload of tag 0) whose length is there and
  whose bytes are not: it is as many zero bytes as its length says.
\<close>

definition endsInside :: "byte list \<Rightarrow> bool" where
  "endsInside bs =
     (if length bs < 2 then True
      else
        (let n = unat (u16at 0 bs) in
         if length bs < 9 + n then True
         else
           (let tag = bs ! (2 + n); pay = drop (9 + n) bs in
            if tag = 0 then length pay < 2 \<or> length pay < spec_payload_width tag pay
            else tag \<in> {1, 2, 3, 5, 6, 7} \<and> length pay < spec_payload_width tag pay)))"

definition cut_fields :: "byte list \<Rightarrow> PROPERTY" where
  "cut_fields bs =
     (if length bs < 2 then zero_PROPERTY
      else
        (let n = unat (u16at 0 bs) in
         if length bs < 2 + n then zero_PROPERTY\<lparr>PROPERTY.Name := replicate n 0\<rparr>
         else
           (let p1 = zero_PROPERTY\<lparr>PROPERTY.Name := take n (drop 2 bs)\<rparr> in
            if length bs < 3 + n then p1
            else
              (let p2 = p1\<lparr>DataTypeFlag := bs ! (2 + n)\<rparr> in
               if length bs < 7 + n then p2
               else
                 (let p3 = p2\<lparr>PropertyFlags := u32at (3 + n) bs\<rparr> in
                  if length bs < 9 + n then p3
                  else
                    (let p4 = p3\<lparr>DataSize := u16at (7 + n) bs\<rparr>; pay = drop (9 + n) bs in
                     if DataTypeFlag p4 = 0 \<and> 2 \<le> length pay
                     then p4\<lparr>DataString := replicate (unat (u16at 0 pay)) 0\<rparr>
                     else p4))))))"

subsection \<open>Decoding a counted sequence in file order\<close>

text \<open>
  Section 4.5 of the specification: decode exactly \<open>n\<close> elements one after the other,
  each from where the one before it ended; the first decoded is the first of the result.
\<close>

fun decodeProperties :: "nat \<Rightarrow> state \<Rightarrow> PROPERTY list \<times> state" where
  "decodeProperties 0 s = ([], s)"
| "decodeProperties (Suc n) s =
     (let (p, s1) = parseProperty s;
          (ps, s2) = decodeProperties n (Println (OutProperty p) s1)
      in (p # ps, s2))"

fun decodeWorldObjects :: "nat \<Rightarrow> state \<Rightarrow> WORLDOBJECT list \<times> state" where
  "decodeWorldObjects 0 s = ([], s)"
| "decodeWorldObjects (Suc n) s =
     (let (wo, s1) = parseWorldObject s;
          (wos, s2) = decodeWorldObjects n s1
      in (wo # wos, s2))"


subsection \<open>The run of main in two parts\<close>

text \<open>
  \<open>objectsState s\<close> is the state in which the loop over the world objects starts when
  \<open>main\<close> is run from \<open>s\<close> on a file that can seek: the header has been read and
  printed, the offset has been set to \<open>ObjectDataPos\<close>, and the count has been read
  there and printed.  \<open>laterSections h bs\<close> is what the five sections after the world
  objects add to the trace on such a file with the bytes \<open>bs\<close>.
\<close>

definition objectsState :: "state \<Rightarrow> state" where
  "objectsState s =
     (let (h, s1) = parseHeader s; pos = ObjectDataPos h
      in s1\<lparr>offset := unat pos + got 4 (unat pos) (contents s),
            trace := trace s1 @
              [EvPrint (OutHeader h), EvSeek (unat pos),
               EvPrint (OutValue (nl @ ''Parsing WorldObjectsData @'') pos),
               EvRead 4 (got 4 (unat pos) (contents s)),
               EvPrint (OutValue (nl @ ''World Objects:'') (peek32 0 (unat pos) (contents s)))]\<rparr>)"

definition laterSections :: "HEADER \<Rightarrow> byte list \<Rightarrow> event list" where
  "laterSections h bs =
     [EvSeek (unat (BlindObjectDataPos h)),
      EvPrint (OutValue (nl @ ''Parsing BlindObjectsData @'') (BlindObjectDataPos h)),
      EvRead 4 (got 4 (unat (BlindObjectDataPos h)) bs),
      EvPrint (OutUint32 (peek32 0 (unat (BlindObjectDataPos h)) bs)),
      EvSeek (unat (LightgridPos h)),
      EvPrint (OutValue (nl @ ''Parsing LightgridData @'') (LightgridPos h)),
      EvSeek (unat (CollisionDataPos h)),
      EvPrint (OutValue (nl @ ''Parsing Physics/CollisionData @'') (CollisionDataPos h)),
      EvRead 4 (got 4 (unat (CollisionDataPos h)) bs),
      EvPrint (OutUint32 (peek32 0 (unat (CollisionDataPos h)) bs)),
      EvSeek (unat (ParticleBlockerDataPos h)),
      EvPrint (OutValue (nl @ ''Parsing ParticleBlockerData @'') (ParticleBlockerDataPos h)),
      EvRead 4 (got 4 (unat (ParticleBlockerDataPos h)) bs),
      EvPrint (OutUint32 (peek32 0 (unat (ParticleBlockerDataPos h)) bs)),
      EvSeek (unat (RenderDataPos h)),
      EvPrint (OutValue (nl @ ''Parsing RenderData @'') (ParticleBlockerDataPos h))]"

section \<open>Example files\<close>

text \<open>A regular file that has just been opened, and a pipe.\<close>

definition openFile :: "byte list \<Rightarrow> state" where
  "openFile bs = \<lparr>contents = bs, seekable = True, offset = 0, trace = []\<rparr>"

definition openPipe :: "byte list \<Rightarrow> state" where
  "openPipe bs = \<lparr>contents = bs, seekable = False, offset = 0, trace = []\<rparr>"

text \<open>
  A well-formed world file of 127 bytes.  Header: version 85, the world objects at 60, the
  blind objects at 107, the light grid at 111, the collision data at 115, the particle
  blockers at 119, the render data at 123, packer type 1 and version 2, and 11 to 16 in
  \<open>Future\<close>.  Two world objects of one property each: a float (tag 3) named \<open>n\<close> with
  declared size 4, and a bool (tag 5) named \<open>b\<close> with declared size 9.  Then one
  \<open>uint32\<close> for each of the five later sections.
\<close>

definition world_file :: "byte list" where
  "world_file =
    [85, 0, 0, 0, 60, 0, 0, 0, 107, 0, 0, 0, 111, 0, 0, 0,
     115, 0, 0, 0, 119, 0, 0, 0, 123, 0, 0, 0, 1, 0, 0, 0,
     2, 0, 0, 0, 11, 0, 0, 0, 12, 0, 0, 0, 13, 0, 0, 0,
     14, 0, 0, 0, 15, 0, 0, 0, 16, 0, 0, 0, 2, 0, 0, 0,
     16, 0, 1, 0, 65, 1, 0, 0, 0, 1, 0, 110, 3, 0, 0, 0,
     0, 4, 0, 0, 0, 128, 63, 7, 0, 1, 0, 66, 1, 0, 0, 0,
     1, 0, 98, 5, 0, 0, 0, 0, 9, 0, 1, 5, 0, 0, 0, 170,
     170, 170, 170, 3, 0, 0, 0, 2, 0, 0, 0, 1, 0, 0, 0]"

text \<open>
  A file that ends inside a property, right after its type tag.  All six offsets are 60.
\<close>

definition truncated_file :: "byte list" where
  "truncated_file =
    [85, 0, 0, 0, 60, 0, 0, 0, 60, 0, 0, 0, 60, 0, 0, 0,
     60, 0, 0, 0, 60, 0, 0, 0, 60, 0, 0, 0, 1, 0, 0, 0,
     2, 0, 0, 0, 11, 0, 0, 0, 12, 0, 0, 0, 13, 0, 0, 0,
     14, 0, 0, 0, 15, 0, 0, 0, 16, 0, 0, 0, 1, 0, 0, 0,
     16, 0, 1, 0, 65, 1, 0, 0, 0, 1, 0, 110, 3]"

text \<open>
  A file whose one world object has two properties: the first with type tag 4 and nothing
  between its declared size and the second, a float.
\<close>

definition unknown_tag_file :: "byte list" where
  "unknown_tag_file =
    [85, 0, 0, 0, 60, 0, 0, 0, 60, 0, 0, 0, 60, 0, 0, 0,
     60, 0, 0, 0, 60, 0, 0, 0, 60, 0, 0, 0, 1, 0, 0, 0,
     2, 0, 0, 0, 11, 0, 0, 0, 12, 0, 0, 0, 13, 0, 0, 0,
     14, 0, 0, 0, 15, 0, 0, 0, 16, 0, 0, 0, 1, 0, 0, 0,
     16, 0, 1, 0, 65, 2, 0, 0, 0, 1, 0, 117, 4, 0, 0, 0,
     0, 0, 0, 1, 0, 110, 3, 0, 0, 0, 0, 4, 0, 0, 0, 128,
     63]"

text \<open>A file of 60 bytes, only a header, whose \<open>ObjectDataPos\<close> is 61.\<close>

definition bad_offset_file :: "byte list" where
  "bad_offset_file =
    [85, 0, 0, 0, 61, 0, 0, 0, 60, 0, 0, 0, 60, 0, 0, 0,
     60, 0, 0, 0, 60, 0, 0, 0, 60, 0, 0, 0, 1, 0, 0, 0,
     2, 0, 0, 0, 11, 0, 0, 0, 12, 0, 0, 0, 13, 0, 0, 0,
     14, 0, 0, 0, 15, 0, 0, 0, 16, 0, 0, 0]"

text \<open>Single properties: the float of the world file, and one cut off after its tag.\<close>

definition float_property :: "byte list" where
  "float_property = [1, 0, 110, 3, 0, 0, 0, 0, 4, 0, 0, 0, 128, 63]"

definition bool_property :: "byte list" where
  "bool_property = [1, 0, 98, 5, 0, 0, 0, 0, 9, 0, 1]"

definition unknown_property :: "byte list" where
  "unknown_property = [1, 0, 117, 4, 0, 0, 0, 0, 4, 0, 9, 9, 9, 9]"

definition cut_property :: "byte list" where
  "cut_property = [1, 0, 110, 3]"

text \<open>
  A Vec3 property named \<open>v\<close> whose components are a signalling NaN, the number 1 and
  a negative signalling NaN.
\<close>

definition nan_property :: "byte list" where
  "nan_property =
    [1, 0, 118, 1, 0, 0, 0, 0, 12, 0, 1, 0, 128, 127, 0, 0, 128, 63, 0, 0, 160, 255]"

section \<open>Primitive reads\<close>

lemma ReadFull_enough:
  "n \<le> length (remaining s) \<Longrightarrow>
   ReadFull n s = (Some (take n (remaining s)),
                   s\<lparr>offset := offset s + n, trace := trace s @ [EvRead n n]\<rparr>)"
  by (simp add: ReadFull_def remaining_def)

lemma ReadFull_short:
  "length (remaining s) < n \<Longrightarrow>
   ReadFull n s = (None, s\<lparr>offset := offset s + length (remaining s),
                     trace := trace s @ [EvRead n (length (remaining s))]\<rparr>)"
  by (simp add: ReadFull_def remaining_def)

lemma Read_uint8_enough:
  "1 \<le> length (remaining s) \<Longrightarrow>
   Read_uint8 d s = (remaining s ! 0, s\<lparr>offset := offset s + 1, trace := trace s @ [EvRead 1 1]\<rparr>)"
  by (simp add: Read_uint8_def ReadFull_enough)

lemma Read_bool_enough:
  "1 \<le> length (remaining s) \<Longrightarrow>
   Read_bool d s = (remaining s ! 0 \<noteq> 0, s\<lparr>offset := offset s + 1, trace := trace s @ [EvRead 1 1]\<rparr>)"
  by (simp add: Read_bool_def ReadFull_enough)

lemma Read_uint16_enough:
  "2 \<le> length (remaining s) \<Longrightarrow>
   Read_uint16 d s = (u16at 0 (remaining s), s\<lparr>offset := offset s + 2, trace := trace s @ [EvRead 2 2]\<rparr>)"
  by (simp add: Read_uint16_def ReadFull_enough u16at_def)

lemma Read_uint32_enough:
  "4 \<le> length (remaining s) \<Longrightarrow>
   Read_uint32 d s = (u32at 0 (remaining s), s\<lparr>offset := offset s + 4, trace := trace s @ [EvRead 4 4]\<rparr>)"
  by (simp add: Read_uint32_def ReadFull_enough u32at_def)

lemma Read_float32_enough:
  "4 \<le> length (remaining s) \<Longrightarrow>
   Read_float32 d s = (u32at 0 (remaining s), s\<lparr>offset := offset s + 4, trace := trace s @ [EvRead 4 4]\<rparr>)"
  by (simp add: Read_float32_def ReadFull_enough u32at_def)

lemma Read_VEC3_enough:
  "12 \<le> length (remaining s) \<Longrightarrow>
   Read_VEC3 d s = (\<lparr>VEC3.X = viaFloat64 (u32at 0 (remaining s)),
                      VEC3.Y = viaFloat64 (u32at 4 (remaining s)),
                      VEC3.Z = viaFloat64 (u32at 8 (remaining s))\<rparr>,
                    s\<lparr>offset := offset s + 12, trace := trace s @ [EvRead 12 12]\<rparr>)"
  by (simp add: Read_VEC3_def ReadFull_enough u32at_def drop_take)

lemma Read_COLOR_enough:
  "12 \<le> length (remaining s) \<Longrightarrow>
   Read_COLOR d s = (\<lparr>R = viaFloat64 (u32at 0 (remaining s)),
                       G = viaFloat64 (u32at 4 (remaining s)),
                       B = viaFloat64 (u32at 8 (remaining s))\<rparr>,
                     s\<lparr>offset := offset s + 12, trace := trace s @ [EvRead 12 12]\<rparr>)"
  by (simp add: Read_COLOR_def ReadFull_enough u32at_def drop_take)

lemma Read_QUATERNION_enough:
  "16 \<le> length (remaining s) \<Longrightarrow>
   Read_QUATERNION d s = (\<lparr>QUATERNION.X = viaFloat64 (u32at 0 (remaining s)),
                            QUATERNION.Y = viaFloat64 (u32at 4 (remaining s)),
                            QUATERNION.Z = viaFloat64 (u32at 8 (remaining s)),
                            W = viaFloat64 (u32at 12 (remaining s))\<rparr>,
                     s\<lparr>offset := offset s + 16, trace := trace s @ [EvRead 16 16]\<rparr>)"
  by (simp add: Read_QUATERNION_def ReadFull_enough u32at_def drop_take)

lemma Read_bytes_enough:
  "length d \<le> length (remaining s) \<Longrightarrow>
   Read_bytes d s = (take (length d) (remaining s),
      s\<lparr>offset := offset s + length d, trace := trace s @ [EvRead (length d) (length d)]\<rparr>)"
  by (simp add: Read_bytes_def ReadFull_enough)

lemma Read_bytes_short:
  "length (remaining s) < length d \<Longrightarrow>
   Read_bytes d s = (d, s\<lparr>offset := offset s + length (remaining s),
      trace := trace s @ [EvRead (length d) (length (remaining s))]\<rparr>)"
  by (simp add: Read_bytes_def ReadFull_short)

lemma Read_uint32_eq:
  "Read_uint32 d s = (peek32 d (offset s) (contents s),
     s\<lparr>offset := offset s + got 4 (offset s) (contents s),
       trace := trace s @ [EvRead 4 (got 4 (offset s) (contents s))]\<rparr>)"
  by (auto simp: Read_uint32_def ReadFull_def peek32_def got_def u32at_def min_def)

lemma remaining_adv:
  "remaining (s\<lparr>offset := offset s + n, trace := t\<rparr>) = drop n (remaining s)"
  by (simp add: remaining_def add.commute)

lemma readLithSTRING_enough:
  assumes "2 + unat (u16at 0 (remaining s)) \<le> length (remaining s)"
  shows "readLithSTRING s =
     (take (unat (u16at 0 (remaining s))) (drop 2 (remaining s)),
      s\<lparr>offset := offset s + (2 + unat (u16at 0 (remaining s))),
        trace := trace s @ [EvRead 2 2, EvRead (unat (u16at 0 (remaining s))) (unat (u16at 0 (remaining s)))]\<rparr>)"
  using assms
  by (simp add: readLithSTRING_def Read_uint16_enough Read_bytes_enough remaining_def add.commute)

section \<open>One property\<close>

lemma parseProperty_head:
  assumes "9 + unat (u16at 0 (remaining s)) \<le> length (remaining s)"
  shows "parseProperty s =
     propertyPayload (spec_property_head (remaining s))
       (s\<lparr>offset := offset s + (9 + unat (u16at 0 (remaining s))),
          trace := trace s @ [EvRead 2 2,
            EvRead (unat (u16at 0 (remaining s))) (unat (u16at 0 (remaining s))),
            EvRead 1 1, EvRead 4 4, EvRead 2 2]\<rparr>)"
proof -
  define n where "n = unat (u16at 0 (remaining s))"
  have len: "9 + n \<le> length (remaining s)"
    using assms by (simp add: n_def)
  have name: "readLithSTRING s = (take n (drop 2 (remaining s)),
      s\<lparr>offset := offset s + (2 + n), trace := trace s @ [EvRead 2 2, EvRead n n]\<rparr>)"
    using len readLithSTRING_enough [of s] by (simp add: n_def)
  show ?thesis
    unfolding parseProperty_def name n_def [symmetric] spec_property_head_def
    using len
    apply (simp add: Read_uint8_enough Read_uint32_enough Read_uint16_enough remaining_def
        u32at_def u16at_def add.commute)
    apply (simp add: ac_simps eval_nat_numeral)
    done
qed

lemma propertyPayload_unknown:
  "DataTypeFlag p \<notin> {0, 1, 2, 3, 5, 6, 7} \<Longrightarrow> propertyPayload p s = (p, s)"
  by (simp add: propertyPayload_def)

lemma propertyPayload_known:
  assumes "DataTypeFlag p \<in> {0, 1, 2, 3, 5, 6, 7}"
    and "spec_payload_width (DataTypeFlag p) (remaining s) \<le> length (remaining s)"
  shows "fst (propertyPayload p s) = spec_payload (DataTypeFlag p) (remaining s) p \<and>
         offset (snd (propertyPayload p s)) =
           offset s + spec_payload_width (DataTypeFlag p) (remaining s)"
  using assms
  by (auto simp: propertyPayload_def spec_payload_def spec_payload_width_def
      readLithSTRING_enough Read_VEC3_enough Read_COLOR_enough Read_float32_enough
      Read_bool_enough Read_uint32_enough Read_QUATERNION_enough)

lemma propertyPayload_DataSize:
  "propertyPayload (p\<lparr>DataSize := d\<rparr>) s =
     ((fst (propertyPayload p s))\<lparr>DataSize := d\<rparr>, snd (propertyPayload p s))"
  by (simp add: propertyPayload_def split_def Let_def)

lemma replicate15: "replicate 15 x = [x,x,x,x,x,x,x,x,x,x,x,x,x,x,x]"
  by (simp add: numeral_eq_Suc)

section \<open>The length-prefixed string\<close>

text \<open>
  Against C7 as stated: of a string with length 3, one byte is left in the file.
  \<open>readLithSTRING\<close> takes that byte out of the file, reports nothing, and the string
  is three zero bytes.
\<close>

theorem readLithSTRING_short_counterexample:
  "readLithSTRING (openFile [3, 0, 65]) =
     ([0, 0, 0], \<lparr>contents = [3, 0, 65], seekable = True, offset = 3,
                  trace = [EvRead 2 2, EvRead 3 1]\<rparr>)"
  by code_simp

text \<open>
  C7, amended.  With the two bytes of the length in the file, \<open>readLithSTRING\<close> reads
  the little-endian \<open>uint16\<close> length \<open>n\<close> and then asks for exactly \<open>n\<close> bytes.
  When they are there they are the string, byte for byte, and the offset has moved by
  \<open>2 + n\<close>; for \<open>n = 0\<close> that is the empty string and no byte after the length.
  When fewer than \<open>n\<close> bytes are left, nothing fails: the bytes that are left are
  consumed and the string is \<open>n\<close> zero bytes.
\<close>

theorem readLithSTRING_decodes:
  assumes "2 \<le> length (remaining s)" and "n = unat (u16at 0 (remaining s))"
  shows "readLithSTRING s =
     (if n \<le> length (remaining s) - 2
      then (take n (drop 2 (remaining s)),
            s\<lparr>offset := offset s + 2 + n, trace := trace s @ [EvRead 2 2, EvRead n n]\<rparr>)
      else (replicate n 0,
            s\<lparr>offset := offset s + length (remaining s),
              trace := trace s @ [EvRead 2 2, EvRead n (length (remaining s) - 2)]\<rparr>))"
  using assms
  by (simp add: readLithSTRING_def Read_uint16_def Read_bytes_def ReadFull_def Let_def
      remaining_def u16at_def add.commute)

text \<open>The theorem at a string of three bytes and at an empty string.\<close>

theorem readLithSTRING_decodes_witness:
  "2 \<le> length (remaining (openFile [3, 0, 65, 66, 67, 68])) \<and>
   readLithSTRING (openFile [3, 0, 65, 66, 67, 68]) =
     ([65, 66, 67], \<lparr>contents = [3, 0, 65, 66, 67, 68], seekable = True, offset = 5,
                     trace = [EvRead 2 2, EvRead 3 3]\<rparr>) \<and>
   2 \<le> length (remaining (openFile [0, 0, 65])) \<and>
   readLithSTRING (openFile [0, 0, 65]) =
     ([], \<lparr>contents = [0, 0, 65], seekable = True, offset = 2,
           trace = [EvRead 2 2, EvRead 0 0]\<rparr>)"
proof -
  have a: "2 \<le> length (remaining (openFile [3, 0, 65, 66, 67, 68]))"
    by (simp add: remaining_def openFile_def)
  have b: "unat (u16at 0 (remaining (openFile [3, 0, 65, 66, 67, 68]))) = 3"
    by (simp add: remaining_def openFile_def u16at_def Uint16_def)
  have c: "2 \<le> length (remaining (openFile [0, 0, 65]))"
    by (simp add: remaining_def openFile_def)
  have d: "unat (u16at 0 (remaining (openFile [0, 0, 65]))) = 0"
    by (simp add: remaining_def openFile_def u16at_def Uint16_def)
  show ?thesis
    using readLithSTRING_decodes [OF a b [symmetric]] readLithSTRING_decodes [OF c d [symmetric]]
    by (simp add: remaining_def openFile_def)
qed

section \<open>The header\<close>

text \<open>
  Against C8 as stated: the header of the world file ends at offset 60, not 36, and the
  six \<open>Future\<close> values come from the bytes 36 to 59.  Of a file of 36 bytes only the
  first nine reads are served; the six reads of \<open>Future\<close> get nothing.
\<close>

theorem header_size_counterexample:
  "Future (fst (parseHeader (openFile world_file))) = [11, 12, 13, 14, 15, 16] \<and>
   offset (snd (parseHeader (openFile world_file))) = 60 \<and>
   fileOps (trace (snd (parseHeader (openFile (take 36 world_file))))) =
     replicate 9 (EvRead 4 4) @ replicate 6 (EvRead 4 0)"
  by code_simp

text \<open>
  C8, amended.  With 60 bytes ahead of the offset, the header is read by fifteen reads of
  four bytes each: version, objectDataPos, blindObjectDataPos, lightgridPos,
  collisionDataPos, particleBlockerDataPos, renderDataPos, packerType, packerVersion
  and the six reserved values, each the little-endian \<open>uint32\<close> at its place, in this
  order.  The header occupies 60 bytes of the file.
\<close>

theorem parseHeader_fields:
  assumes "60 \<le> length (remaining s)"
  shows "parseHeader s =
     (\<lparr>Version = u32at 0 (remaining s), ObjectDataPos = u32at 4 (remaining s),
        BlindObjectDataPos = u32at 8 (remaining s), LightgridPos = u32at 12 (remaining s),
        CollisionDataPos = u32at 16 (remaining s), ParticleBlockerDataPos = u32at 20 (remaining s),
        RenderDataPos = u32at 24 (remaining s), PackerType = u32at 28 (remaining s),
        PackerVersion = u32at 32 (remaining s),
        Future = [u32at 36 (remaining s), u32at 40 (remaining s), u32at 44 (remaining s),
                  u32at 48 (remaining s), u32at 52 (remaining s), u32at 56 (remaining s)]\<rparr>,
      s\<lparr>offset := offset s + 60, trace := trace s @ replicate 15 (EvRead 4 4)\<rparr>)"
  unfolding replicate15
  using assms
  by (simp add: parseHeader_def zero_HEADER_def Read_uint32_enough u32at_def remaining_def
      add.commute)

text \<open>The theorem at the world file.\<close>

theorem parseHeader_fields_witness:
  "60 \<le> length (remaining (openFile world_file)) \<and>
   fst (parseHeader (openFile world_file)) =
     \<lparr>Version = 85, ObjectDataPos = 60, BlindObjectDataPos = 107, LightgridPos = 111,
      CollisionDataPos = 115, ParticleBlockerDataPos = 119, RenderDataPos = 123,
      PackerType = 1, PackerVersion = 2, Future = [11, 12, 13, 14, 15, 16]\<rparr> \<and>
   offset (snd (parseHeader (openFile world_file))) = 60"
proof -
  have a: "60 \<le> length (remaining (openFile world_file))"
    by (simp add: remaining_def openFile_def world_file_def)
  show ?thesis
    using parseHeader_fields [OF a]
    by (simp add: remaining_def openFile_def world_file_def u32at_def Uint32_def)
qed

section \<open>The property record\<close>

text \<open>Reads at the end of the file: nothing is delivered and the destination stays.\<close>

lemma Read_nothing:
  assumes "remaining s = []"
  shows "Read_uint16 a s = (a, s\<lparr>trace := trace s @ [EvRead 2 0]\<rparr>)"
    and "Read_uint32 b s = (b, s\<lparr>trace := trace s @ [EvRead 4 0]\<rparr>)"
    and "Read_float32 b s = (b, s\<lparr>trace := trace s @ [EvRead 4 0]\<rparr>)"
    and "Read_bool c s = (c, s\<lparr>trace := trace s @ [EvRead 1 0]\<rparr>)"
    and "Read_VEC3 v s = (v, s\<lparr>trace := trace s @ [EvRead 12 0]\<rparr>)"
    and "Read_COLOR k s = (k, s\<lparr>trace := trace s @ [EvRead 12 0]\<rparr>)"
    and "Read_QUATERNION q s = (q, s\<lparr>trace := trace s @ [EvRead 16 0]\<rparr>)"
    and "Read_bytes [] s = ([], s\<lparr>trace := trace s @ [EvRead 0 0]\<rparr>)"
  using assms
  by (simp_all add: Read_uint16_def Read_uint32_def Read_float32_def Read_bool_def Read_VEC3_def
      Read_COLOR_def Read_QUATERNION_def Read_bytes_def ReadFull_def remaining_def)

lemma remaining_trace [simp]: "remaining (s\<lparr>trace := t\<rparr>) = remaining s"
  by (simp add: remaining_def)

lemma propertyPayload_nothing:
  assumes "remaining s = []"
    and "DataString p = []" and "DataVEC3 p = zero_VEC3" and "DataCOLOR p = zero_COLOR"
    and "DataFloat p = 0" and "DataBool p = False" and "DataUint32 p = 0"
    and "DataQuaternion p = zero_QUATERNION"
  shows "fst (propertyPayload p s) = p" and "offset (snd (propertyPayload p s)) = offset s"
proof -
  have str: "readLithSTRING s = ([], s\<lparr>trace := trace s @ [EvRead 2 0, EvRead 0 0]\<rparr>)"
    by (simp add: readLithSTRING_def Read_nothing(1) [OF assms(1)] Read_nothing(8) assms(1))
  show "fst (propertyPayload p s) = p"
    using assms(2-)
    by (auto simp: propertyPayload_def str Read_nothing(2-7) [OF assms(1)])
  show "offset (snd (propertyPayload p s)) = offset s"
    by (simp add: propertyPayload_def str Read_nothing(2-7) [OF assms(1)])
qed

text \<open>
  C6.  For a property whose bytes are all in the file and whose type tag is one of 0, 1, 2,
  3, 5, 6, 7, the decoder reads the name, the tag, the flags and the declared size (the
  record \<open>p\<close>), then decodes the payload that the tag selects: the result is \<open>p\<close>
  with the one payload field of the tag set from the payload bytes \<open>pay\<close> (a string, a
  bool, a \<open>uint32\<close> and the float of tag 3 as the bytes are, the components of a Vec3,
  a Color and a Quaternion as the decoder holds them, \<open>viaFloat64\<close>).  The offset
  moves by the nine bytes and the name ahead of the payload and by the width of the
  payload, which is a function of the tag and, for the string of tag 0, of its own length
  prefix: 12, 12, 4, 1, 4 and 16 bytes for the tags 1, 2, 3, 5, 6 and 7.  The declared
  size is stored and nothing more: the payload \<open>switch\<close> on a record with another
  declared size does the same reads and sets the same field, and no value of it makes
  the decoder fail.
\<close>

theorem parseProperty_known_tag:
  assumes "p = spec_property_head (remaining s)"
    and "n = unat (u16at 0 (remaining s))"
    and "DataTypeFlag p \<in> {0, 1, 2, 3, 5, 6, 7}"
    and "pay = drop (9 + n) (remaining s)"
    and "9 + n + spec_payload_width (DataTypeFlag p) pay \<le> length (remaining s)"
  shows "fst (parseProperty s) = spec_payload (DataTypeFlag p) pay p \<and>
         offset (snd (parseProperty s)) =
           offset s + 9 + n + spec_payload_width (DataTypeFlag p) pay \<and>
         propertyPayload (q\<lparr>DataSize := d\<rparr>) t =
           ((fst (propertyPayload q t))\<lparr>DataSize := d\<rparr>, snd (propertyPayload q t))"
proof -
  define s' where "s' = s\<lparr>offset := offset s + (9 + n),
      trace := trace s @ [EvRead 2 2, EvRead n n, EvRead 1 1, EvRead 4 4, EvRead 2 2]\<rparr>"
  have head: "parseProperty s = propertyPayload p s'"
    using assms(5) parseProperty_head [of s] by (simp add: assms(1,2) s'_def)
  have rem: "remaining s' = pay"
    by (simp add: s'_def remaining_def assms(4) ac_simps)
  have enough: "spec_payload_width (DataTypeFlag p) (remaining s') \<le> length (remaining s')"
    using assms(5) by (simp add: rem assms(4))
  have "fst (propertyPayload p s') = spec_payload (DataTypeFlag p) pay p \<and>
        offset (snd (propertyPayload p s')) =
          offset s' + spec_payload_width (DataTypeFlag p) pay"
    using propertyPayload_known [OF assms(3) enough] by (simp add: rem)
  then show ?thesis
    by (simp add: head s'_def propertyPayload_DataSize)
qed

text \<open>
  The theorem at the bool property, whose declared size 9 is not the width 1 of its
  payload, and at the Vec3 property with the two signalling NaNs, which are held quiet.
\<close>

theorem parseProperty_known_tag_witness:
  "DataTypeFlag (spec_property_head (remaining (openFile bool_property))) = 5 \<and>
   DataSize (spec_property_head (remaining (openFile bool_property))) = 9 \<and>
   spec_payload_width 5 (drop 10 bool_property) = 1 \<and>
   fst (parseProperty (openFile bool_property)) =
     zero_PROPERTY\<lparr>PROPERTY.Name := [98], DataTypeFlag := 5, DataSize := 9, DataBool := True\<rparr> \<and>
   offset (snd (parseProperty (openFile bool_property))) = 11 \<and>
   fst (parseProperty (openFile nan_property)) =
     zero_PROPERTY\<lparr>PROPERTY.Name := [118], DataTypeFlag := 1, DataSize := 12,
       DataVEC3 := \<lparr>VEC3.X = 0x7FC00001, VEC3.Y = 0x3F800000, VEC3.Z = 0xFFE00000\<rparr>\<rparr> \<and>
   offset (snd (parseProperty (openFile nan_property))) = 22"
proof -
  have a: "DataTypeFlag (spec_property_head (remaining (openFile bool_property))) = 5 \<and>
     DataSize (spec_property_head (remaining (openFile bool_property))) = 9 \<and>
     spec_payload_width 5 (drop 10 bool_property) = 1 \<and>
     fst (parseProperty (openFile bool_property)) =
       zero_PROPERTY\<lparr>PROPERTY.Name := [98], DataTypeFlag := 5, DataSize := 9, DataBool := True\<rparr> \<and>
     offset (snd (parseProperty (openFile bool_property))) = 11"
  proof -
    have r: "remaining (openFile bool_property) = bool_property"
      by (simp add: remaining_def openFile_def)
    have n: "unat (u16at 0 bool_property) = 1"
      by (simp add: bool_property_def u16at_def Uint16_def)
    have h: "spec_property_head bool_property =
        zero_PROPERTY\<lparr>PROPERTY.Name := [98], DataTypeFlag := 5, DataSize := 9\<rparr>"
      by code_simp
    have w: "spec_payload_width 5 (drop 10 bool_property) = 1"
      by (simp add: spec_payload_width_def)
    have v: "spec_payload 5 (drop 10 bool_property)
        (zero_PROPERTY\<lparr>PROPERTY.Name := [98], DataTypeFlag := 5, DataSize := 9\<rparr>) =
        zero_PROPERTY\<lparr>PROPERTY.Name := [98], DataTypeFlag := 5, DataSize := 9, DataBool := True\<rparr>"
      by (simp add: spec_payload_def bool_property_def)
    have "fst (parseProperty (openFile bool_property)) =
            spec_payload 5 (drop 10 bool_property)
              (zero_PROPERTY\<lparr>PROPERTY.Name := [98], DataTypeFlag := 5, DataSize := 9\<rparr>) \<and>
          offset (snd (parseProperty (openFile bool_property))) =
            offset (openFile bool_property) + 9 + 1 + spec_payload_width 5 (drop 10 bool_property)"
      using parseProperty_known_tag [of "zero_PROPERTY\<lparr>PROPERTY.Name := [98], DataTypeFlag := 5, DataSize := 9\<rparr>"
          "openFile bool_property" 1 "drop 10 bool_property"]
      by (simp add: r n h w) (simp add: bool_property_def)
    moreover have "offset (openFile bool_property) = 0"
      by (simp add: openFile_def)
    ultimately show ?thesis
      by (simp add: r h w v)
  qed
  have b: "fst (parseProperty (openFile nan_property)) =
       zero_PROPERTY\<lparr>PROPERTY.Name := [118], DataTypeFlag := 1, DataSize := 12,
         DataVEC3 := \<lparr>VEC3.X = 0x7FC00001, VEC3.Y = 0x3F800000, VEC3.Z = 0xFFE00000\<rparr>\<rparr> \<and>
     offset (snd (parseProperty (openFile nan_property))) = 22"
  proof -
    have r: "remaining (openFile nan_property) = nan_property"
      by (simp add: remaining_def openFile_def)
    have n: "unat (u16at 0 nan_property) = 1"
      by (simp add: nan_property_def u16at_def Uint16_def)
    have h: "spec_property_head nan_property =
        zero_PROPERTY\<lparr>PROPERTY.Name := [118], DataTypeFlag := 1, DataSize := 12\<rparr>"
      by code_simp
    have w: "spec_payload_width 1 (drop 10 nan_property) = 12"
      by (simp add: spec_payload_width_def)
    have v: "spec_payload 1 (drop 10 nan_property)
        (zero_PROPERTY\<lparr>PROPERTY.Name := [118], DataTypeFlag := 1, DataSize := 12\<rparr>) =
        zero_PROPERTY\<lparr>PROPERTY.Name := [118], DataTypeFlag := 1, DataSize := 12,
         DataVEC3 := \<lparr>VEC3.X = 0x7FC00001, VEC3.Y = 0x3F800000, VEC3.Z = 0xFFE00000\<rparr>\<rparr>"
      by code_simp
    have "fst (parseProperty (openFile nan_property)) =
            spec_payload 1 (drop 10 nan_property)
              (zero_PROPERTY\<lparr>PROPERTY.Name := [118], DataTypeFlag := 1, DataSize := 12\<rparr>) \<and>
          offset (snd (parseProperty (openFile nan_property))) =
            offset (openFile nan_property) + 9 + 1 + spec_payload_width 1 (drop 10 nan_property)"
      using parseProperty_known_tag [of "zero_PROPERTY\<lparr>PROPERTY.Name := [118], DataTypeFlag := 1, DataSize := 12\<rparr>"
          "openFile nan_property" 1 "drop 10 nan_property"]
      by (simp add: r n h w) (simp add: nan_property_def)
    moreover have "offset (openFile nan_property) = 0"
      by (simp add: openFile_def)
    ultimately show ?thesis
      by (simp add: w v)
  qed
from a b show ?thesis
    by simp
qed

text \<open>
  Against C3 as stated: a world object whose first property has type tag 4.  \<open>main\<close>
  returns, the property is in the list with no payload, and the property after it is
  decoded from the byte after the declared size.
\<close>

theorem unknown_tag_counterexample:
  "fst (main (openFile unknown_tag_file)) =
     Inr (zero_WORLD\<lparr>WorldObjectsLen := 1,
       WorldObjects := [\<lparr>ObjectSize = 16, ObjectType = [65], PropertiesLen = 2,
         Properties = [zero_PROPERTY\<lparr>PROPERTY.Name := [117], DataTypeFlag := 4\<rparr>,
                       zero_PROPERTY\<lparr>PROPERTY.Name := [110], DataTypeFlag := 3, DataSize := 4,
                         DataFloat := 1065353216\<rparr>]\<rparr>],
       BlindObjectDataSize := 1, PhysicsDataLen := 1, ParticleBlockerDataLen := 1\<rparr>)"
  by code_simp

text \<open>
  C3, amended.  For a property record whose type tag is not one of 0, 1, 2, 3, 5, 6, 7
  and whose name, tag, flags and declared size are in the file, the decoder reads these
  four and no payload: the record keeps the zero value in every payload field, nothing
  fails, and the offset stands at the byte after the declared size, where decoding goes
  on.
\<close>

theorem parseProperty_unknown_tag:
  assumes "9 + unat (u16at 0 (remaining s)) \<le> length (remaining s)"
    and "DataTypeFlag (spec_property_head (remaining s)) \<notin> {0, 1, 2, 3, 5, 6, 7}"
  shows "parseProperty s =
     (spec_property_head (remaining s),
      s\<lparr>offset := offset s + (9 + unat (u16at 0 (remaining s))),
        trace := trace s @ [EvRead 2 2,
          EvRead (unat (u16at 0 (remaining s))) (unat (u16at 0 (remaining s))),
          EvRead 1 1, EvRead 4 4, EvRead 2 2]\<rparr>)"
  using parseProperty_head [OF assms(1)] propertyPayload_unknown [OF assms(2)]
  by simp

text \<open>The theorem at a property with type tag 4.\<close>

theorem parseProperty_unknown_tag_witness:
  "9 + unat (u16at 0 (remaining (openFile unknown_property)))
     \<le> length (remaining (openFile unknown_property)) \<and>
   DataTypeFlag (spec_property_head (remaining (openFile unknown_property))) = 4 \<and>
   parseProperty (openFile unknown_property) =
     (zero_PROPERTY\<lparr>PROPERTY.Name := [117], DataTypeFlag := 4, DataSize := 4\<rparr>,
      \<lparr>contents = unknown_property, seekable = True, offset = 10,
       trace = [EvRead 2 2, EvRead 1 1, EvRead 1 1, EvRead 4 4, EvRead 2 2]\<rparr>)"
proof -
  have n: "unat (u16at 0 (remaining (openFile unknown_property))) = 1"
    by (simp add: remaining_def openFile_def unknown_property_def u16at_def Uint16_def)
  have a: "9 + unat (u16at 0 (remaining (openFile unknown_property)))
      \<le> length (remaining (openFile unknown_property))"
    unfolding n by (simp add: remaining_def openFile_def unknown_property_def)
  have h: "spec_property_head (remaining (openFile unknown_property)) =
      zero_PROPERTY\<lparr>PROPERTY.Name := [117], DataTypeFlag := 4, DataSize := 4\<rparr>"
    by code_simp
  have b: "DataTypeFlag (spec_property_head (remaining (openFile unknown_property)))
      \<notin> {0, 1, 2, 3, 5, 6, 7}"
    unfolding h by simp
  show ?thesis
    using parseProperty_unknown_tag [OF a b] a
    unfolding h n by (simp add: openFile_def)
qed

text \<open>
  Against C2 as stated: a file that ends right after the type tag of the one property of
  its one world object.  \<open>main\<close> returns with the property in the list, its flags,
  declared size and payload zero.
\<close>

theorem truncated_property_counterexample:
  "fst (main (openFile truncated_file)) =
     Inr (zero_WORLD\<lparr>WorldObjectsLen := 1,
       WorldObjects := [\<lparr>ObjectSize = 16, ObjectType = [65], PropertiesLen = 1,
         Properties = [zero_PROPERTY\<lparr>PROPERTY.Name := [110], DataTypeFlag := 3\<rparr>]\<rparr>],
       BlindObjectDataSize := 1, PhysicsDataLen := 1, ParticleBlockerDataLen := 1\<rparr>)"
  by code_simp

subsection \<open>Reads by what is left of the file\<close>

lemma ReadFull_fst:
  "fst (ReadFull n s) = (if n \<le> length (remaining s) then Some (take n (remaining s)) else None)"
  by (simp add: ReadFull_def remaining_def)

lemma ReadFull_remaining: "remaining (snd (ReadFull n s)) = drop n (remaining s)"
  by (simp add: ReadFull_def remaining_def Let_def add.commute)

lemma ReadFull_position:
  "offset (snd (ReadFull n s)) + length (remaining (snd (ReadFull n s))) =
   offset s + length (remaining s)"
  by (auto simp: ReadFull_def remaining_def Let_def)

lemma Read_snd:
  "snd (Read_uint8 a s) = snd (ReadFull 1 s)"
  "snd (Read_bool b s) = snd (ReadFull 1 s)"
  "snd (Read_uint16 c s) = snd (ReadFull 2 s)"
  "snd (Read_uint32 d s) = snd (ReadFull 4 s)"
  "snd (Read_float32 d s) = snd (ReadFull 4 s)"
  "snd (Read_VEC3 v s) = snd (ReadFull 12 s)"
  "snd (Read_COLOR k s) = snd (ReadFull 12 s)"
  "snd (Read_QUATERNION q s) = snd (ReadFull 16 s)"
  "snd (Read_bytes bs s) = snd (ReadFull (length bs) s)"
  by (simp_all add: Read_uint8_def Read_bool_def Read_uint16_def Read_uint32_def Read_float32_def
      Read_VEC3_def Read_COLOR_def Read_QUATERNION_def Read_bytes_def
      split: prod.splits option.splits)

lemma Read_fst:
  "fst (Read_uint8 a s) = (if 1 \<le> length (remaining s) then remaining s ! 0 else a)"
  "fst (Read_uint16 c s) = (if 2 \<le> length (remaining s) then u16at 0 (remaining s) else c)"
  "fst (Read_uint32 d s) = (if 4 \<le> length (remaining s) then u32at 0 (remaining s) else d)"
  "fst (Read_bytes bs s) =
     (if length bs \<le> length (remaining s) then take (length bs) (remaining s) else bs)"
  by (simp_all add: Read_uint8_def Read_uint16_def Read_uint32_def Read_bytes_def
      ReadFull_def remaining_def u16at_def u32at_def)

lemma Read_short_fst:
  "length (remaining s) < 4 \<Longrightarrow> fst (Read_float32 d s) = d"
  "length (remaining s) < 1 \<Longrightarrow> fst (Read_bool b s) = b"
  "length (remaining s) < 12 \<Longrightarrow> fst (Read_VEC3 v s) = v"
  "length (remaining s) < 12 \<Longrightarrow> fst (Read_COLOR k s) = k"
  "length (remaining s) < 16 \<Longrightarrow> fst (Read_QUATERNION q s) = q"
  "length (remaining s) < 4 \<Longrightarrow> fst (Read_uint32 d s) = d"
  by (simp_all add: Read_float32_def Read_bool_def Read_VEC3_def Read_COLOR_def
      Read_QUATERNION_def Read_uint32_def ReadFull_def remaining_def)

lemma readLithSTRING_fst:
  "fst (readLithSTRING s) =
     (if length (remaining s) < 2 then []
      else if length (remaining s) < 2 + unat (u16at 0 (remaining s))
        then replicate (unat (u16at 0 (remaining s))) 0
      else take (unat (u16at 0 (remaining s))) (drop 2 (remaining s)))"
  by (auto simp: readLithSTRING_def split_def Read_fst Read_snd ReadFull_remaining)

lemma readLithSTRING_remaining:
  "remaining (snd (readLithSTRING s)) =
     (if length (remaining s) < 2 then []
      else drop (2 + unat (u16at 0 (remaining s))) (remaining s))"
  by (auto simp: readLithSTRING_def split_def Read_fst Read_snd ReadFull_remaining add.commute)

lemma readLithSTRING_position:
  "offset (snd (readLithSTRING s)) + length (remaining (snd (readLithSTRING s))) =
   offset s + length (remaining s)"
  by (simp add: readLithSTRING_def split_def Read_snd ReadFull_position)

lemma propertyPayload_position:
  "offset (snd (propertyPayload p s)) + length (remaining (snd (propertyPayload p s))) =
   offset s + length (remaining s)"
  by (simp add: propertyPayload_def split_def Let_def Read_snd ReadFull_position
      readLithSTRING_position)

lemma propertyPayload_short:
  assumes "DataTypeFlag p \<in> {1, 2, 3, 5, 6, 7}"
    and "length (remaining s) < spec_payload_width (DataTypeFlag p) (remaining s)"
  shows "fst (propertyPayload p s) = p \<and> remaining (snd (propertyPayload p s)) = []"
proof -
  from assms(1) consider "DataTypeFlag p = 1" | "DataTypeFlag p = 2" | "DataTypeFlag p = 3"
    | "DataTypeFlag p = 5" | "DataTypeFlag p = 6" | "DataTypeFlag p = 7"
    by auto
  then show ?thesis
    using assms(2)
    by cases
      (simp_all add: propertyPayload_def spec_payload_width_def split_def Read_short_fst
        Read_snd ReadFull_remaining)
qed

lemma propertyPayload_string_short:
  assumes "DataTypeFlag p = 0"
    and "length (remaining s) < 2 \<or> length (remaining s) < spec_payload_width 0 (remaining s)"
  shows "fst (propertyPayload p s) =
           p\<lparr>DataString := (if 2 \<le> length (remaining s)
                              then replicate (unat (u16at 0 (remaining s))) 0 else [])\<rparr> \<and>
         remaining (snd (propertyPayload p s)) = []"
  using assms
  by (auto simp: propertyPayload_def spec_payload_width_def split_def
      readLithSTRING_fst readLithSTRING_remaining)

lemma parseProperty_stages:
  "parseProperty s =
     (let s1 = snd (readLithSTRING s); s2 = snd (ReadFull 1 s1); s3 = snd (ReadFull 4 s2);
          s4 = snd (ReadFull 2 s3)
      in propertyPayload
           (zero_PROPERTY\<lparr>PROPERTY.Name := fst (readLithSTRING s),
              DataTypeFlag := fst (Read_uint8 0 s1), PropertyFlags := fst (Read_uint32 0 s2),
              DataSize := fst (Read_uint16 0 s3)\<rparr>) s4)"
  by (simp add: parseProperty_def split_def Let_def zero_PROPERTY_def Read_snd)

lemma parseProperty_position:
  "offset (snd (parseProperty s)) + length (remaining (snd (parseProperty s))) =
   offset s + length (remaining s)"
  by (simp add: parseProperty_stages Let_def propertyPayload_position ReadFull_position
      readLithSTRING_position)



lemma u_at_drop:
  "u32at i (drop k bs) = u32at (k + i) bs" "u16at i (drop k bs) = u16at (k + i) bs"
  by (simp_all add: u32at_def u16at_def add.commute)

lemma cut_fields_cases:
  "length bs < 2 \<Longrightarrow> cut_fields bs = zero_PROPERTY"
  "2 \<le> length bs \<Longrightarrow> length bs < 2 + unat (u16at 0 bs) \<Longrightarrow>
     cut_fields bs = zero_PROPERTY\<lparr>PROPERTY.Name := replicate (unat (u16at 0 bs)) 0\<rparr>"
  "2 + unat (u16at 0 bs) \<le> length bs \<Longrightarrow> length bs < 3 + unat (u16at 0 bs) \<Longrightarrow>
     cut_fields bs = zero_PROPERTY\<lparr>PROPERTY.Name := take (unat (u16at 0 bs)) (drop 2 bs)\<rparr>"
  "3 + unat (u16at 0 bs) \<le> length bs \<Longrightarrow> length bs < 7 + unat (u16at 0 bs) \<Longrightarrow>
     cut_fields bs = zero_PROPERTY\<lparr>PROPERTY.Name := take (unat (u16at 0 bs)) (drop 2 bs),
       DataTypeFlag := bs ! (2 + unat (u16at 0 bs))\<rparr>"
  "7 + unat (u16at 0 bs) \<le> length bs \<Longrightarrow> length bs < 9 + unat (u16at 0 bs) \<Longrightarrow>
     cut_fields bs = zero_PROPERTY\<lparr>PROPERTY.Name := take (unat (u16at 0 bs)) (drop 2 bs),
       DataTypeFlag := bs ! (2 + unat (u16at 0 bs)),
       PropertyFlags := u32at (3 + unat (u16at 0 bs)) bs\<rparr>"
  by (simp_all add: cut_fields_def Let_def)

lemma cut_fields_payload:
  assumes "9 + unat (u16at 0 bs) \<le> length bs"
  shows "cut_fields bs =
     (let p4 = spec_property_head bs; pay = drop (9 + unat (u16at 0 bs)) bs
      in if DataTypeFlag p4 = 0 \<and> 2 \<le> length pay
         then p4\<lparr>DataString := replicate (unat (u16at 0 pay)) 0\<rparr> else p4)"
  using assms by (simp add: cut_fields_def spec_property_head_def Let_def)

lemma head_stages:
  assumes "remaining s1 = r"
  shows "fst (Read_uint8 0 s1) = (if 1 \<le> length r then r ! 0 else 0)"
    and "fst (Read_uint32 0 (snd (ReadFull 1 s1))) =
           (if 5 \<le> length r then u32at 1 r else 0)"
    and "fst (Read_uint16 0 (snd (ReadFull 4 (snd (ReadFull 1 s1))))) =
           (if 7 \<le> length r then u16at 5 r else 0)"
    and "remaining (snd (ReadFull 2 (snd (ReadFull 4 (snd (ReadFull 1 s1)))))) = drop 7 r"
  using assms
  by (auto simp: Read_fst ReadFull_remaining u_at_drop)

text \<open>
  C2, amended.  For every input file truncated in the middle of a Property record,
  wherever the cut falls, decoding does not fail: every field whose bytes are all in the
  file holds its value, and every field the truncation cut off keeps its zero value, but
  for a string whose length was read and whose bytes were cut off, which becomes that
  many zero bytes.  Every read is checked against the end of the file: no read goes past
  it, and the offset stops at the end of the file.
\<close>

theorem parseProperty_truncated:
  assumes "endsInside (remaining s)"
  shows "fst (parseProperty s) = cut_fields (remaining s) \<and>
         offset (snd (parseProperty s)) = offset s + length (remaining s)"
proof -
  define bs where "bs = remaining s"
  define n where "n = unat (u16at 0 bs)"
  define s1 where "s1 = snd (readLithSTRING s)"
  define r where "r = remaining s1"
  define s4 where "s4 = snd (ReadFull 2 (snd (ReadFull 4 (snd (ReadFull 1 s1)))))"
  define p4 where "p4 = zero_PROPERTY\<lparr>PROPERTY.Name := fst (readLithSTRING s),
      DataTypeFlag := fst (Read_uint8 0 s1),
      PropertyFlags := fst (Read_uint32 0 (snd (ReadFull 1 s1))),
      DataSize := fst (Read_uint16 0 (snd (ReadFull 4 (snd (ReadFull 1 s1)))))\<rparr>"
  note st = head_stages [OF r_def [symmetric]]
  have pp: "parseProperty s = propertyPayload p4 s4"
    by (simp add: parseProperty_stages Let_def p4_def s4_def s1_def)
  have r1: "r = (if length bs < 2 then [] else drop (2 + n) bs)"
    by (simp add: r_def s1_def readLithSTRING_remaining bs_def n_def)
  have nm: "fst (readLithSTRING s) =
      (if length bs < 2 then [] else if length bs < 2 + n then replicate n 0
       else take n (drop 2 bs))"
    by (simp add: readLithSTRING_fst bs_def n_def)
  have r4: "remaining s4 = drop 7 r"
    unfolding s4_def by (rule st(4))
  have p4': "p4 = zero_PROPERTY\<lparr>PROPERTY.Name := fst (readLithSTRING s),
      DataTypeFlag := (if 1 \<le> length r then r ! 0 else 0),
      PropertyFlags := (if 5 \<le> length r then u32at 1 r else 0),
      DataSize := (if 7 \<le> length r then u16at 5 r else 0)\<rparr>"
    unfolding p4_def st by (rule refl)
  have zero: "DataString p4 = []" "DataVEC3 p4 = zero_VEC3" "DataCOLOR p4 = zero_COLOR"
    "DataFloat p4 = 0" "DataBool p4 = False" "DataUint32 p4 = 0"
    "DataQuaternion p4 = zero_QUATERNION"
    by (simp_all add: p4_def zero_PROPERTY_def)
  have at_end: "fst (parseProperty s) = p4 \<and> remaining (snd (parseProperty s)) = []"
    if e4: "remaining s4 = []"
  proof -
    have "fst (propertyPayload p4 s4) = p4"
      by (rule propertyPayload_nothing(1) [OF e4 zero])
    moreover have "remaining (snd (propertyPayload p4 s4)) = []"
      using propertyPayload_position [of p4 s4] propertyPayload_nothing(2) [OF e4 zero]
      by (simp add: e4)
    ultimately show ?thesis
      by (simp add: pp)
  qed
  consider (A) "length bs < 2"
    | (B) "2 \<le> length bs" "length bs < 2 + n"
    | (C) "2 + n \<le> length bs" "length bs < 3 + n"
    | (D) "3 + n \<le> length bs" "length bs < 7 + n"
    | (E) "7 + n \<le> length bs" "length bs < 9 + n"
    | (F) "9 + n \<le> length bs"
    by linarith
  then have both: "fst (parseProperty s) = cut_fields bs \<and> remaining (snd (parseProperty s)) = []"
  proof cases
    case A
    have "r = []" using A by (simp add: r1)
    then have "p4 = zero_PROPERTY" and "remaining s4 = []"
      using A by (simp_all add: p4' nm r4 zero_PROPERTY_def)
    then show ?thesis
      using at_end A by (simp add: cut_fields_cases(1))
  next
    case B
    have "r = []" using B by (simp add: r1)
    then have "p4 = zero_PROPERTY\<lparr>PROPERTY.Name := replicate n 0\<rparr>" and "remaining s4 = []"
      using B by (simp_all add: p4' nm r4 zero_PROPERTY_def)
    then show ?thesis
      using at_end cut_fields_cases(2) [of bs] B by (simp add: n_def)
  next
    case C
    have "r = []" using C by (simp add: r1)
    then have "p4 = zero_PROPERTY\<lparr>PROPERTY.Name := take n (drop 2 bs)\<rparr>" and "remaining s4 = []"
      using C by (simp_all add: p4' nm r4 zero_PROPERTY_def)
    then show ?thesis
      using at_end cut_fields_cases(3) [of bs] C by (simp add: n_def)
  next
    case D
    have l: "1 \<le> length r" "length r < 5" and r0: "r ! 0 = bs ! (2 + n)"
      using D by (simp_all add: r1)
    then have "p4 = zero_PROPERTY\<lparr>PROPERTY.Name := take n (drop 2 bs),
        DataTypeFlag := bs ! (2 + n)\<rparr>" and "remaining s4 = []"
      using D by (simp_all add: p4' nm r4 zero_PROPERTY_def)
    then show ?thesis
      using at_end cut_fields_cases(4) [of bs] D by (simp add: n_def)
  next
    case E
    have l: "5 \<le> length r" "length r < 7" and r0: "r ! 0 = bs ! (2 + n)"
      and f: "u32at 1 r = u32at (3 + n) bs"
      using E by (simp_all add: r1 u_at_drop Suc3_eq_add_3)
    then have "p4 = zero_PROPERTY\<lparr>PROPERTY.Name := take n (drop 2 bs),
        DataTypeFlag := bs ! (2 + n), PropertyFlags := u32at (3 + n) bs\<rparr>"
      and "remaining s4 = []"
      using E by (simp_all add: p4' nm r4 zero_PROPERTY_def)
    then show ?thesis
      using at_end cut_fields_cases(5) [of bs] E by (simp add: n_def)
  next
    case F
    have l: "7 \<le> length r" and r0: "r ! 0 = bs ! (2 + n)"
      and f: "u32at 1 r = u32at (3 + n) bs" and g: "u16at 5 r = u16at (7 + n) bs"
      and e4: "remaining s4 = drop (9 + n) bs"
      using F by (simp_all add: r1 r4 u_at_drop Suc3_eq_add_3 add.commute)
    have h: "p4 = spec_property_head bs"
      using F l r0 f g by (simp add: p4' nm spec_property_head_def n_def [symmetric])
    have tag: "DataTypeFlag p4 = bs ! (2 + n)"
      by (simp add: h spec_property_head_def n_def [symmetric])
    note cf = cut_fields_payload [of bs, unfolded n_def [symmetric], OF F]
    show ?thesis
    proof (cases "bs ! (2 + n) = 0")
      case True
      have short: "length (remaining s4) < 2 \<or>
          length (remaining s4) < spec_payload_width 0 (remaining s4)"
        using assms F True
        by (simp add: endsInside_def Let_def bs_def [symmetric] n_def [symmetric] e4)
      have ds: "p4\<lparr>DataString := []\<rparr> = p4"
        by (simp add: p4_def zero_PROPERTY_def)
      from propertyPayload_string_short [OF tag [unfolded True] short]
      show ?thesis
        using True tag by (simp add: pp cf Let_def e4 h [symmetric] ds)
    next
      case False
      have known: "DataTypeFlag p4 \<in> {1, 2, 3, 5, 6, 7}"
        and short: "length (remaining s4) < spec_payload_width (DataTypeFlag p4) (remaining s4)"
        using assms F False
        by (simp_all add: endsInside_def Let_def bs_def [symmetric] n_def [symmetric] e4 tag)
      from propertyPayload_short [OF known short]
      show ?thesis
        using False tag by (simp add: pp cf Let_def h [symmetric])
    qed
  qed
  show ?thesis
    using both parseProperty_position [of s] by (simp add: bs_def)
qed

text \<open>
  The theorem at three cuts: right after the tag, two bytes into the flags, and one byte
  into a string payload of length 3.
\<close>

theorem parseProperty_truncated_witness:
  "endsInside (remaining (openFile cut_property)) \<and>
   fst (parseProperty (openFile cut_property)) =
     zero_PROPERTY\<lparr>PROPERTY.Name := [110], DataTypeFlag := 3\<rparr> \<and>
   offset (snd (parseProperty (openFile cut_property))) = 4 \<and>
   endsInside (remaining (openFile (take 6 float_property))) \<and>
   fst (parseProperty (openFile (take 6 float_property))) =
     zero_PROPERTY\<lparr>PROPERTY.Name := [110], DataTypeFlag := 3\<rparr> \<and>
   offset (snd (parseProperty (openFile (take 6 float_property)))) = 6 \<and>
   endsInside (remaining (openFile [1, 0, 115, 0, 0, 0, 0, 0, 3, 0, 3, 0, 65])) \<and>
   fst (parseProperty (openFile [1, 0, 115, 0, 0, 0, 0, 0, 3, 0, 3, 0, 65])) =
     zero_PROPERTY\<lparr>PROPERTY.Name := [115], DataSize := 3, DataString := [0, 0, 0]\<rparr> \<and>
   offset (snd (parseProperty (openFile [1, 0, 115, 0, 0, 0, 0, 0, 3, 0, 3, 0, 65]))) = 13"
proof -
  have r: "remaining (openFile bs) = bs" "offset (openFile bs) = 0" for bs
    by (simp_all add: remaining_def openFile_def)
  have a: "endsInside cut_property" "endsInside (take 6 float_property)"
    "endsInside [1, 0, 115, 0, 0, 0, 0, 0, 3, 0, 3, 0, 65]"
    by code_simp+
  have c: "cut_fields cut_property = zero_PROPERTY\<lparr>PROPERTY.Name := [110], DataTypeFlag := 3\<rparr>"
    "cut_fields (take 6 float_property) =
       zero_PROPERTY\<lparr>PROPERTY.Name := [110], DataTypeFlag := 3\<rparr>"
    "cut_fields [1, 0, 115, 0, 0, 0, 0, 0, 3, 0, 3, 0, 65] =
       zero_PROPERTY\<lparr>PROPERTY.Name := [115], DataSize := 3, DataString := [0, 0, 0]\<rparr>"
    by code_simp+
  have l: "length cut_property = 4" "length float_property = 14"
    by (simp_all add: cut_property_def float_property_def)
  show ?thesis
    using parseProperty_truncated [of "openFile cut_property"]
      parseProperty_truncated [of "openFile (take 6 float_property)"]
      parseProperty_truncated [of "openFile [1, 0, 115, 0, 0, 0, 0, 0, 3, 0, 3, 0, 65]"]
    unfolding r
    by (simp add: a c l)
qed

section \<open>What the decoders leave alone\<close>

lemma seeks_append: "seeks (xs @ ys) = seeks xs @ seeks ys"
  by (induction xs rule: seeks.induct) simp_all

lemma fileOps_append: "fileOps (xs @ ys) = fileOps xs @ fileOps ys"
  by (induction xs rule: fileOps.induct) simp_all

lemma prints_append: "prints (xs @ ys) = prints xs @ prints ys"
  by (induction xs rule: prints.induct) simp_all

lemma seeks_fileOps: "seeks (fileOps xs) = seeks xs"
  by (induction xs rule: fileOps.induct) simp_all

lemma readsOnly_iff:
  "readsOnly s s' \<longleftrightarrow>
     contents s' = contents s \<and> seekable s' = seekable s \<and>
     (\<exists>t. trace s' = trace s @ t \<and> seeks t = [])"
proof
  assume r: "readsOnly s s'"
  then have "trace s' = trace s @ drop (length (trace s)) (trace s')"
    by (metis readsOnly_def append_take_drop_id)
  with r show "contents s' = contents s \<and> seekable s' = seekable s \<and>
     (\<exists>t. trace s' = trace s @ t \<and> seeks t = [])"
    unfolding readsOnly_def by blast
next
  assume "contents s' = contents s \<and> seekable s' = seekable s \<and>
     (\<exists>t. trace s' = trace s @ t \<and> seeks t = [])"
  then show "readsOnly s s'"
    by (auto simp: readsOnly_def)
qed

lemma readsOnly_refl: "readsOnly s s"
  by (simp add: readsOnly_def)

lemma readsOnly_trans: "readsOnly a b \<Longrightarrow> readsOnly b c \<Longrightarrow> readsOnly a c"
  unfolding readsOnly_iff by (auto simp: seeks_append)

lemma readsOnly_ReadFull: "readsOnly s (snd (ReadFull n s))"
  by (simp add: readsOnly_def ReadFull_def Let_def)

lemma readsOnly_Println: "readsOnly s (Println x s)"
  by (simp add: readsOnly_def Println_def)

lemma readsOnly_Read:
  "readsOnly s (snd (Read_uint8 a s))"
  "readsOnly s (snd (Read_bool b s))"
  "readsOnly s (snd (Read_uint16 c s))"
  "readsOnly s (snd (Read_uint32 d s))"
  "readsOnly s (snd (Read_float32 d s))"
  "readsOnly s (snd (Read_VEC3 v s))"
  "readsOnly s (snd (Read_COLOR k s))"
  "readsOnly s (snd (Read_QUATERNION q s))"
  "readsOnly s (snd (Read_bytes bs s))"
  using readsOnly_ReadFull [of s]
  by (auto simp: Read_uint8_def Read_bool_def Read_uint16_def Read_uint32_def Read_float32_def
      Read_VEC3_def Read_COLOR_def Read_QUATERNION_def Read_bytes_def
      split: prod.splits option.splits dest: sndI)

section \<open>The loops\<close>

lemmas readsOnly_step =
  readsOnly_trans [OF _ readsOnly_Read(1)] readsOnly_trans [OF _ readsOnly_Read(2)]
  readsOnly_trans [OF _ readsOnly_Read(3)] readsOnly_trans [OF _ readsOnly_Read(4)]
  readsOnly_trans [OF _ readsOnly_Read(5)] readsOnly_trans [OF _ readsOnly_Read(6)]
  readsOnly_trans [OF _ readsOnly_Read(7)] readsOnly_trans [OF _ readsOnly_Read(8)]
  readsOnly_trans [OF _ readsOnly_Read(9)] readsOnly_trans [OF _ readsOnly_Println]

lemma readsOnly_readLithSTRING: "readsOnly s (snd (readLithSTRING s))"
  by (simp add: readLithSTRING_def split_def Let_def) (intro readsOnly_step readsOnly_refl)

lemmas readsOnly_step_string = readsOnly_trans [OF _ readsOnly_readLithSTRING]

lemma readsOnly_propertyPayload: "readsOnly s (snd (propertyPayload p s))"
  by (simp add: propertyPayload_def split_def Let_def readsOnly_Read readsOnly_readLithSTRING
      readsOnly_refl)

lemma readsOnly_parseProperty: "readsOnly s (snd (parseProperty s))"
  by (simp add: parseProperty_def split_def Let_def)
     (intro readsOnly_trans [OF _ readsOnly_propertyPayload] readsOnly_step
        readsOnly_step_string readsOnly_refl)

lemma readsOnly_decodeProperties: "readsOnly s (snd (decodeProperties n s))"
proof (induction n arbitrary: s)
  case 0
  show ?case by (simp add: readsOnly_refl)
next
  case (Suc n)
  have "readsOnly s (Println (OutProperty (fst (parseProperty s))) (snd (parseProperty s)))"
    by (intro readsOnly_step readsOnly_parseProperty)
  then have "readsOnly s (snd (decodeProperties n
      (Println (OutProperty (fst (parseProperty s))) (snd (parseProperty s)))))"
    by (rule readsOnly_trans [OF _ Suc.IH])
  then show ?case
    by (simp add: split_def Let_def)
qed

lemma propertiesLoop_decode:
  "propertiesLoop n wo s =
     (wo\<lparr>Properties := Properties wo @ fst (decodeProperties n s)\<rparr>, snd (decodeProperties n s))"
  by (induction n arbitrary: wo s) (simp_all add: split_def Let_def)



lemma readsOnly_parseWorldObject: "readsOnly s (snd (parseWorldObject s))"
  unfolding parseWorldObject_def propertiesLoop_decode
  by (simp add: split_def Let_def)
     (intro readsOnly_trans [OF _ readsOnly_decodeProperties] readsOnly_step
        readsOnly_step_string readsOnly_refl)

lemma readsOnly_decodeWorldObjects: "readsOnly s (snd (decodeWorldObjects n s))"
proof (induction n arbitrary: s)
  case 0
  show ?case by (simp add: readsOnly_refl)
next
  case (Suc n)
  have "readsOnly s (snd (decodeWorldObjects n (snd (parseWorldObject s))))"
    by (rule readsOnly_trans [OF readsOnly_parseWorldObject Suc.IH])
  then show ?case
    by (simp add: split_def Let_def)
qed

lemma worldObjectsLoop_decode:
  "worldObjectsLoop n w s =
     (w\<lparr>WorldObjects := WorldObjects w @ fst (decodeWorldObjects n s)\<rparr>,
      snd (decodeWorldObjects n s))"
  by (induction n arbitrary: w s) (simp_all add: split_def Let_def)

lemma length_decodeWorldObjects: "length (fst (decodeWorldObjects n s)) = n"
  by (induction n arbitrary: s) (simp_all add: split_def Let_def)


lemma readsOnly_parseHeader: "readsOnly s (snd (parseHeader s))"
  by (simp add: parseHeader_def split_def Let_def) (intro readsOnly_step readsOnly_refl)

section \<open>The sections and main\<close>

lemma sectionWorldObjects_seekable:
  assumes "seekable s" and "WorldObjectsLen w = 0" and "WorldObjects w = []"
  shows "sectionWorldObjects h w s =
    (let pos = ObjectDataPos h; n = peek32 0 (unat pos) (contents s);
         s0 = s\<lparr>offset := unat pos + got 4 (unat pos) (contents s),
                trace := trace s @ [EvSeek (unat pos),
                  EvPrint (OutValue (nl @ ''Parsing WorldObjectsData @'') pos),
                  EvRead 4 (got 4 (unat pos) (contents s)),
                  EvPrint (OutValue (nl @ ''World Objects:'') n)]\<rparr>
     in (Inr (w\<lparr>WorldObjectsLen := n, WorldObjects := fst (decodeWorldObjects (unat n) s0)\<rparr>),
         snd (decodeWorldObjects (unat n) s0)))"
  using assms
  by (simp add: sectionWorldObjects_def Seek_def Println_def Read_uint32_eq Let_def
      worldObjectsLoop_decode)

lemma sectionBlindObjects_seekable:
  assumes "seekable s"
  shows "sectionBlindObjects h w s =
    (let pos = BlindObjectDataPos h; n = peek32 (BlindObjectDataSize w) (unat pos) (contents s)
     in (Inr (w\<lparr>BlindObjectDataSize := n\<rparr>),
         s\<lparr>offset := unat pos + got 4 (unat pos) (contents s),
           trace := trace s @ [EvSeek (unat pos),
             EvPrint (OutValue (nl @ ''Parsing BlindObjectsData @'') pos),
             EvRead 4 (got 4 (unat pos) (contents s)), EvPrint (OutUint32 n)]\<rparr>))"
  using assms
  by (simp add: sectionBlindObjects_def Seek_def Println_def Read_uint32_eq Let_def)

lemma sectionLightgrid_seekable:
  assumes "seekable s"
  shows "sectionLightgrid h w s =
    (Inr w, s\<lparr>offset := unat (LightgridPos h),
           trace := trace s @ [EvSeek (unat (LightgridPos h)),
             EvPrint (OutValue (nl @ ''Parsing LightgridData @'') (LightgridPos h))]\<rparr>)"
  using assms
  by (simp add: sectionLightgrid_def Seek_def Println_def Let_def)

lemma sectionPhysics_seekable:
  assumes "seekable s"
  shows "sectionPhysics h w s =
    (let pos = CollisionDataPos h; n = peek32 (PhysicsDataLen w) (unat pos) (contents s)
     in (Inr (w\<lparr>PhysicsDataLen := n\<rparr>),
         s\<lparr>offset := unat pos + got 4 (unat pos) (contents s),
           trace := trace s @ [EvSeek (unat pos),
             EvPrint (OutValue (nl @ ''Parsing Physics/CollisionData @'') pos),
             EvRead 4 (got 4 (unat pos) (contents s)), EvPrint (OutUint32 n)]\<rparr>))"
  using assms
  by (simp add: sectionPhysics_def Seek_def Println_def Read_uint32_eq Let_def)

lemma sectionParticleBlocker_seekable:
  assumes "seekable s"
  shows "sectionParticleBlocker h w s =
    (let pos = ParticleBlockerDataPos h; n = peek32 (ParticleBlockerDataLen w) (unat pos) (contents s)
     in (Inr (w\<lparr>ParticleBlockerDataLen := n\<rparr>),
         s\<lparr>offset := unat pos + got 4 (unat pos) (contents s),
           trace := trace s @ [EvSeek (unat pos),
             EvPrint (OutValue (nl @ ''Parsing ParticleBlockerData @'') pos),
             EvRead 4 (got 4 (unat pos) (contents s)), EvPrint (OutUint32 n)]\<rparr>))"
  using assms
  by (simp add: sectionParticleBlocker_def Seek_def Println_def Read_uint32_eq Let_def)

lemma sectionRenderData_seekable:
  assumes "seekable s"
  shows "sectionRenderData h w s =
    (Inr w, s\<lparr>offset := unat (RenderDataPos h),
           trace := trace s @ [EvSeek (unat (RenderDataPos h)),
             EvPrint (OutValue (nl @ ''Parsing RenderData @'') (ParticleBlockerDataPos h))]\<rparr>)"
  using assms
  by (simp add: sectionRenderData_def Seek_def Println_def Let_def)

lemma main_seekable:
  assumes "seekable s"
  shows "main s =
    (let h = fst (parseHeader s); bs = contents s;
         n = peek32 0 (unat (ObjectDataPos h)) bs;
         d = decodeWorldObjects (unat n) (objectsState s)
     in (Inr (zero_WORLD\<lparr>WorldObjectsLen := n, WorldObjects := fst d,
           BlindObjectDataSize := peek32 0 (unat (BlindObjectDataPos h)) bs,
           PhysicsDataLen := peek32 0 (unat (CollisionDataPos h)) bs,
           ParticleBlockerDataLen := peek32 0 (unat (ParticleBlockerDataPos h)) bs\<rparr>),
         (snd d)\<lparr>offset := unat (RenderDataPos h),
                  trace := trace (snd d) @ laterSections h bs\<rparr>))"
proof -
  define h where "h = fst (parseHeader s)"
  define s1 where "s1 = snd (parseHeader s)"
  define s2 where "s2 = Println (OutHeader h) s1"
  define n where "n = peek32 0 (unat (ObjectDataPos h)) (contents s)"
  define d where "d = decodeWorldObjects (unat n) (objectsState s)"
  have ph: "parseHeader s = (h, s1)"
    by (simp add: h_def s1_def)
  have r1: "readsOnly s s1"
    unfolding s1_def by (rule readsOnly_parseHeader)
  then have c2: "contents s2 = contents s" and k2: "seekable s2"
    using assms by (simp_all add: s2_def Println_def readsOnly_def)
  have os: "objectsState s = s2\<lparr>offset := unat (ObjectDataPos h) + got 4 (unat (ObjectDataPos h)) (contents s),
                trace := trace s2 @ [EvSeek (unat (ObjectDataPos h)),
                  EvPrint (OutValue (nl @ ''Parsing WorldObjectsData @'') (ObjectDataPos h)),
                  EvRead 4 (got 4 (unat (ObjectDataPos h)) (contents s)),
                  EvPrint (OutValue (nl @ ''World Objects:'') n)]\<rparr>"
    by (simp add: objectsState_def ph s2_def Println_def n_def Let_def)
  have first: "sectionWorldObjects h zero_WORLD s2 =
      (Inr (zero_WORLD\<lparr>WorldObjectsLen := n, WorldObjects := fst d\<rparr>), snd d)"
    using sectionWorldObjects_seekable [OF k2, of zero_WORLD h]
    by (simp add: zero_WORLD_def c2 Let_def os n_def d_def)
  have rd: "readsOnly (objectsState s) (snd d)"
    unfolding d_def by (rule readsOnly_decodeWorldObjects)
  have cd: "contents (snd d) = contents s" and kd: "seekable (snd d)"
    using rd k2 c2 by (simp_all add: readsOnly_def os)
  show ?thesis
    unfolding main_def ph
    apply (simp add: Let_def s2_def [symmetric] h_def [symmetric] n_def [symmetric] d_def [symmetric])
    apply (simp add: first andThen_def)
    apply (simp add: sectionBlindObjects_seekable kd cd Let_def)
    apply (simp add: sectionLightgrid_seekable kd)
    apply (simp add: sectionPhysics_seekable kd cd Let_def)
    apply (simp add: sectionParticleBlocker_seekable kd cd Let_def)
    apply (simp add: sectionRenderData_seekable kd)
    apply (simp add: laterSections_def zero_WORLD_def)
    done
qed

lemma main_not_seekable:
  assumes "\<not> seekable s"
  shows "main s =
    (let h = fst (parseHeader s); s1 = snd (parseHeader s)
     in (Inl Exit1,
         s1\<lparr>trace := trace s1 @ [EvPrint (OutHeader h), EvSeekFailed (unat (ObjectDataPos h)),
            EvPrint (OutValue (nl @ ''Parsing WorldObjectsData @'') (ObjectDataPos h)),
            EvPrint (OutSeekError (ObjectDataPos h))]\<rparr>))"
proof -
  have "\<not> seekable (snd (parseHeader s))"
    using assms readsOnly_parseHeader [of s] by (simp add: readsOnly_def)
  then show ?thesis
    by (simp add: main_def split_def Let_def sectionWorldObjects_def Seek_def Println_def
        Printf_def andThen_def)
qed

lemma trace_grows: "readsOnly s s' \<Longrightarrow> set (trace s) \<subseteq> set (trace s')"
  unfolding readsOnly_iff by auto

lemma decodeProperties_printed:
  "p \<in> set (fst (decodeProperties n s)) \<Longrightarrow>
   EvPrint (OutProperty p) \<in> set (trace (snd (decodeProperties n s)))"
proof (induction n arbitrary: s)
  case 0
  then show ?case by simp
next
  case (Suc n)
  define s1 where "s1 = Println (OutProperty (fst (parseProperty s))) (snd (parseProperty s))"
  have step: "decodeProperties (Suc n) s =
      (fst (parseProperty s) # fst (decodeProperties n s1), snd (decodeProperties n s1))"
    by (simp add: split_def Let_def s1_def)
  have here: "EvPrint (OutProperty (fst (parseProperty s))) \<in> set (trace s1)"
    by (simp add: s1_def Println_def)
  have "set (trace s1) \<subseteq> set (trace (snd (decodeProperties n s1)))"
    by (rule trace_grows [OF readsOnly_decodeProperties])
  with here Suc show ?case
    unfolding step by auto
qed

lemma parseWorldObject_printed:
  "p \<in> set (Properties (fst (parseWorldObject s))) \<Longrightarrow>
   EvPrint (OutProperty p) \<in> set (trace (snd (parseWorldObject s)))"
  unfolding parseWorldObject_def propertiesLoop_decode
  by (simp add: split_def Let_def zero_WORLDOBJECT_def decodeProperties_printed)

lemma decodeWorldObjects_printed:
  "wo \<in> set (fst (decodeWorldObjects n s)) \<Longrightarrow> p \<in> set (Properties wo) \<Longrightarrow>
   EvPrint (OutProperty p) \<in> set (trace (snd (decodeWorldObjects n s)))"
proof (induction n arbitrary: s)
  case 0
  then show ?case by simp
next
  case (Suc n)
  define s1 where "s1 = snd (parseWorldObject s)"
  have step: "decodeWorldObjects (Suc n) s =
      (fst (parseWorldObject s) # fst (decodeWorldObjects n s1), snd (decodeWorldObjects n s1))"
    by (simp add: split_def Let_def s1_def)
  have grows: "set (trace s1) \<subseteq> set (trace (snd (decodeWorldObjects n s1)))"
    by (rule trace_grows [OF readsOnly_decodeWorldObjects])
  from Suc.prems(1) consider "wo = fst (parseWorldObject s)" | "wo \<in> set (fst (decodeWorldObjects n s1))"
    unfolding step by auto
  then show ?case
  proof cases
    case 1
    then have "EvPrint (OutProperty p) \<in> set (trace s1)"
      using Suc.prems(2) parseWorldObject_printed [of p s] by (simp add: s1_def)
    with grows show ?thesis unfolding step by auto
  next
    case 2
    then show ?thesis
      unfolding step using Suc.IH [of s1] Suc.prems(2) by simp
  qed
qed

lemma main_Inr_seekable: "main s = (Inr w, s') \<Longrightarrow> seekable s"
  using main_not_seekable [of s] by (cases "seekable s") (auto simp: Let_def)

lemma objects_trace:
  "\<exists>t. trace (snd (decodeWorldObjects n (objectsState s))) = trace (objectsState s) @ t \<and>
       seeks t = []"
  using readsOnly_decodeWorldObjects [of "objectsState s" n] unfolding readsOnly_iff by blast

lemma objectsState_trace:
  "trace (objectsState s) = trace (snd (parseHeader s)) @
     [EvPrint (OutHeader (fst (parseHeader s))), EvSeek (unat (ObjectDataPos (fst (parseHeader s)))),
      EvPrint (OutValue (nl @ ''Parsing WorldObjectsData @'') (ObjectDataPos (fst (parseHeader s)))),
      EvRead 4 (got 4 (unat (ObjectDataPos (fst (parseHeader s)))) (contents s)),
      EvPrint (OutValue (nl @ ''World Objects:'')
        (peek32 0 (unat (ObjectDataPos (fst (parseHeader s)))) (contents s)))]"
  by (simp add: objectsState_def split_def Let_def)

lemma peek32_beyond: "length bs < k \<Longrightarrow> peek32 0 k bs = 0"
  by (simp add: peek32_def)

lemma parseWorldObject_count_printed:
  "EvPrint (OutPropertyCount (ObjectType (fst (parseWorldObject s)))
      (PropertiesLen (fst (parseWorldObject s)))) \<in> set (trace (snd (parseWorldObject s)))"
proof -
  define s3 where "s3 = snd (Read_uint32 0 (snd (readLithSTRING (snd (Read_uint16 0 s)))))"
  define ty where "ty = fst (readLithSTRING (snd (Read_uint16 0 s)))"
  define n where "n = fst (Read_uint32 0 (snd (readLithSTRING (snd (Read_uint16 0 s)))))"
  define s4 where "s4 = Println (OutPropertyCount ty n) s3"
  have wo: "ObjectType (fst (parseWorldObject s)) = ty" "PropertiesLen (fst (parseWorldObject s)) = n"
    and st: "snd (parseWorldObject s) = snd (decodeProperties (unat n) s4)"
    unfolding parseWorldObject_def propertiesLoop_decode
    by (simp_all add: split_def Let_def zero_WORLDOBJECT_def ty_def n_def s4_def s3_def)
  have "EvPrint (OutPropertyCount ty n) \<in> set (trace s4)"
    by (simp add: s4_def Println_def)
  moreover have "set (trace s4) \<subseteq> set (trace (snd (decodeProperties (unat n) s4)))"
    by (rule trace_grows [OF readsOnly_decodeProperties])
  ultimately show ?thesis
    unfolding wo st by auto
qed

lemma decodeWorldObjects_count_printed:
  "wo \<in> set (fst (decodeWorldObjects n s)) \<Longrightarrow>
   EvPrint (OutPropertyCount (ObjectType wo) (PropertiesLen wo))
     \<in> set (trace (snd (decodeWorldObjects n s)))"
proof (induction n arbitrary: s)
  case 0
  then show ?case by simp
next
  case (Suc n)
  define s1 where "s1 = snd (parseWorldObject s)"
  have step: "decodeWorldObjects (Suc n) s =
      (fst (parseWorldObject s) # fst (decodeWorldObjects n s1), snd (decodeWorldObjects n s1))"
    by (simp add: split_def Let_def s1_def)
  have grows: "set (trace s1) \<subseteq> set (trace (snd (decodeWorldObjects n s1)))"
    by (rule trace_grows [OF readsOnly_decodeWorldObjects])
  from Suc.prems consider "wo = fst (parseWorldObject s)" | "wo \<in> set (fst (decodeWorldObjects n s1))"
    unfolding step by auto
  then show ?case
  proof cases
    case 1
    then have "EvPrint (OutPropertyCount (ObjectType wo) (PropertiesLen wo)) \<in> set (trace s1)"
      using parseWorldObject_count_printed [of s] by (simp add: s1_def)
    with grows show ?thesis unfolding step by auto
  next
    case 2
    then show ?thesis
      unfolding step using Suc.IH [of s1] by simp
  qed
qed

section \<open>Counts and order of the world objects\<close>



section \<open>The order of the sections\<close>

text \<open>
  Against C1 as stated: the world file has four bytes at its light grid offset 111 and
  at its render data offset 123.  \<open>main\<close> seeks to 111 and, with no read in
  between, to 115; the seek to 123 is its last file operation.  The light grid and the
  render data of the document are the zero values: for these two sections no decoder
  runs and nothing is stored.
\<close>

theorem sections_counterexample:
  "take 4 (drop 111 world_file) = [170, 170, 170, 170] \<and>
   take 4 (drop 123 world_file) = [1, 0, 0, 0] \<and>
   (case fst (main (openFile world_file)) of
      Inr w \<Rightarrow> LightGrid w = zero_LIGHTGRID \<and> RenderData w = zero_RENDERDATA
    | Inl e \<Rightarrow> False) \<and>
   drop 37 (fileOps (trace (snd (main (openFile world_file))))) =
     [EvSeek 107, EvRead 4 4, EvSeek 111, EvSeek 115, EvRead 4 4, EvSeek 119, EvRead 4 4,
      EvSeek 123]"
  by code_simp

text \<open>
  C1, amended.  On a file that can seek, the decoder first reads the header, and then,
  in the order world objects, blind objects, light grid, physics/collision, particle
  blocker, render data, seeks to the offset the header holds for the section.  After the
  first seek it decodes the world objects and stores them with their count; after the
  seeks of the blind objects, the physics data and the particle blockers it reads one
  \<open>uint32\<close> and stores it; after the seeks of the light grid and the render data it
  reads nothing.  These six are the only seeks: neither reading the header nor decoding
  the world objects seeks.
\<close>

theorem sections_in_order:
  assumes "seekable s" and "h = fst (parseHeader s)" and "bs = contents s"
  shows "\<exists>w s' objs. main s = (Inr w, s') \<and>
     fileOps (trace s') =
       fileOps (trace (snd (parseHeader s))) @ [EvSeek (unat (ObjectDataPos h))] @ objs @
       [EvSeek (unat (BlindObjectDataPos h)), EvRead 4 (got 4 (unat (BlindObjectDataPos h)) bs),
        EvSeek (unat (LightgridPos h)),
        EvSeek (unat (CollisionDataPos h)), EvRead 4 (got 4 (unat (CollisionDataPos h)) bs),
        EvSeek (unat (ParticleBlockerDataPos h)),
        EvRead 4 (got 4 (unat (ParticleBlockerDataPos h)) bs),
        EvSeek (unat (RenderDataPos h))] \<and>
     seeks objs = [] \<and>
     seeks (trace (snd (parseHeader s))) = seeks (trace s) \<and>
     WorldObjectsLen w = peek32 0 (unat (ObjectDataPos h)) bs \<and>
     WorldObjects w = fst (decodeWorldObjects (unat (WorldObjectsLen w)) (objectsState s)) \<and>
     BlindObjectDataSize w = peek32 0 (unat (BlindObjectDataPos h)) bs \<and>
     PhysicsDataLen w = peek32 0 (unat (CollisionDataPos h)) bs \<and>
     ParticleBlockerDataLen w = peek32 0 (unat (ParticleBlockerDataPos h)) bs"
proof -
  define n where "n = peek32 0 (unat (ObjectDataPos h)) bs"
  obtain t where t: "trace (snd (decodeWorldObjects (unat n) (objectsState s))) =
      trace (objectsState s) @ t" and st: "seeks t = []"
    using objects_trace by blast
  have hdr: "seeks (trace (snd (parseHeader s))) = seeks (trace s)"
    using readsOnly_parseHeader [of s] unfolding readsOnly_iff by (auto simp: seeks_append)
  have later: "fileOps (laterSections h bs) =
       [EvSeek (unat (BlindObjectDataPos h)), EvRead 4 (got 4 (unat (BlindObjectDataPos h)) bs),
        EvSeek (unat (LightgridPos h)),
        EvSeek (unat (CollisionDataPos h)), EvRead 4 (got 4 (unat (CollisionDataPos h)) bs),
        EvSeek (unat (ParticleBlockerDataPos h)),
        EvRead 4 (got 4 (unat (ParticleBlockerDataPos h)) bs),
        EvSeek (unat (RenderDataPos h))]"
    by (simp add: laterSections_def)
  have ops: "fileOps (trace (snd (decodeWorldObjects (unat n) (objectsState s))) @ laterSections h bs) =
       fileOps (trace (snd (parseHeader s))) @ [EvSeek (unat (ObjectDataPos h))] @
       (EvRead 4 (got 4 (unat (ObjectDataPos h)) bs) # fileOps t) @ fileOps (laterSections h bs)"
    unfolding t objectsState_trace by (simp add: fileOps_append assms(2,3))
  have so: "seeks (EvRead 4 (got 4 (unat (ObjectDataPos h)) bs) # fileOps t) = []"
    by (simp add: seeks_fileOps st)
  show ?thesis
    using main_seekable [OF assms(1)] ops so hdr
    unfolding later
    by (simp add: Let_def assms(2,3) [symmetric] n_def [symmetric])
qed

text \<open>The theorem at the world file.\<close>

theorem sections_in_order_witness:
  "seekable (openFile world_file) \<and>
   (\<exists>w s' objs. main (openFile world_file) = (Inr w, s') \<and>
      fileOps (trace s') = replicate 15 (EvRead 4 4) @ [EvSeek 60] @ objs @
        [EvSeek 107, EvRead 4 4, EvSeek 111, EvSeek 115, EvRead 4 4, EvSeek 119, EvRead 4 4,
         EvSeek 123] \<and>
      seeks objs = [] \<and> BlindObjectDataSize w = 5 \<and> PhysicsDataLen w = 3 \<and>
      ParticleBlockerDataLen w = 2)"
proof -
  have k: "seekable (openFile world_file)"
    by (simp add: openFile_def)
  have h: "fst (parseHeader (openFile world_file)) =
     \<lparr>Version = 85, ObjectDataPos = 60, BlindObjectDataPos = 107, LightgridPos = 111,
      CollisionDataPos = 115, ParticleBlockerDataPos = 119, RenderDataPos = 123,
      PackerType = 1, PackerVersion = 2, Future = [11, 12, 13, 14, 15, 16]\<rparr>"
    by code_simp
  have t: "fileOps (trace (snd (parseHeader (openFile world_file)))) = replicate 15 (EvRead 4 4)"
    by code_simp
  have c: "contents (openFile world_file) = world_file"
    by (simp add: openFile_def)
  have v: "peek32 0 107 world_file = 5" "peek32 0 115 world_file = 3" "peek32 0 119 world_file = 2"
    "got 4 107 world_file = 4" "got 4 115 world_file = 4" "got 4 119 world_file = 4"
    by code_simp+
  show ?thesis
    using sections_in_order [OF k h [symmetric] c [symmetric]] k
    by (simp add: t v) blast
qed

section \<open>Offsets beyond the end of the file\<close>

text \<open>
  Against C4 as stated: a file of 60 bytes whose \<open>ObjectDataPos\<close> is 61.  The seek to
  61 is done, the read of the count there gets nothing, the other five seeks follow, and
  \<open>main\<close> returns the zero document.
\<close>

theorem bad_offset_counterexample:
  "length bad_offset_file = 60 \<and>
   ObjectDataPos (fst (parseHeader (openFile bad_offset_file))) = 61 \<and>
   fst (main (openFile bad_offset_file)) = Inr zero_WORLD \<and>
   fileOps (drop 15 (trace (snd (main (openFile bad_offset_file))))) =
     [EvSeek 61, EvRead 4 0, EvSeek 60, EvRead 4 0, EvSeek 60, EvSeek 60, EvRead 4 0,
      EvSeek 60, EvRead 4 0, EvSeek 60]"
  by code_simp

text \<open>
  C4, amended.  On a file that can seek, a section offset beyond the length of the file
  is no error: all six seeks are done, \<open>main\<close> returns, and a section whose offset
  lies beyond the end has read nothing, so that its count or size is zero (and the list
  of world objects empty).  The decoder stops only when the file rejects the seek
  itself: then the run ends with exit status 1 at the first seek, before any byte of the
  world objects is read.
\<close>

theorem offset_beyond_end:
  assumes "h = fst (parseHeader s)"
  shows "if seekable s
         then \<exists>w s'. main s = (Inr w, s') \<and>
            seeks (trace s') = seeks (trace s) @
              [unat (ObjectDataPos h), unat (BlindObjectDataPos h), unat (LightgridPos h),
               unat (CollisionDataPos h), unat (ParticleBlockerDataPos h),
               unat (RenderDataPos h)] \<and>
            (length (contents s) < unat (ObjectDataPos h) \<longrightarrow>
               WorldObjectsLen w = 0 \<and> WorldObjects w = []) \<and>
            (length (contents s) < unat (BlindObjectDataPos h) \<longrightarrow> BlindObjectDataSize w = 0) \<and>
            (length (contents s) < unat (CollisionDataPos h) \<longrightarrow> PhysicsDataLen w = 0) \<and>
            (length (contents s) < unat (ParticleBlockerDataPos h) \<longrightarrow>
               ParticleBlockerDataLen w = 0)
         else fst (main s) = Inl Exit1 \<and>
            fileOps (trace (snd (main s))) =
              fileOps (trace (snd (parseHeader s))) @ [EvSeekFailed (unat (ObjectDataPos h))]"
proof (cases "seekable s")
  case True
  define n where "n = peek32 0 (unat (ObjectDataPos h)) (contents s)"
  obtain t where t: "trace (snd (decodeWorldObjects (unat n) (objectsState s))) =
      trace (objectsState s) @ t" and st: "seeks t = []"
    using objects_trace by blast
  have hdr: "seeks (trace (snd (parseHeader s))) = seeks (trace s)"
    using readsOnly_parseHeader [of s] unfolding readsOnly_iff by (auto simp: seeks_append)
  have sk: "seeks (trace (snd (decodeWorldObjects (unat n) (objectsState s))) @ laterSections h (contents s)) =
      seeks (trace s) @
        [unat (ObjectDataPos h), unat (BlindObjectDataPos h), unat (LightgridPos h),
         unat (CollisionDataPos h), unat (ParticleBlockerDataPos h), unat (RenderDataPos h)]"
    unfolding t objectsState_trace
    by (simp add: seeks_append hdr st laterSections_def assms)
  show ?thesis
    using True main_seekable [OF True] sk
    by (simp add: Let_def assms [symmetric] n_def [symmetric])
       (auto simp: n_def peek32_beyond)
next
  case False
  then show ?thesis
    using main_not_seekable [OF False]
    by (simp add: Let_def assms fileOps_append)
qed

text \<open>
  The theorem at the file of 60 bytes with \<open>ObjectDataPos\<close> 61, opened as a regular
  file and as a pipe.
\<close>

theorem offset_beyond_end_witness:
  "seekable (openFile bad_offset_file) \<and>
   length (contents (openFile bad_offset_file)) < 61 \<and>
   (\<exists>w s'. main (openFile bad_offset_file) = (Inr w, s') \<and>
      seeks (trace s') = [61, 60, 60, 60, 60, 60] \<and>
      WorldObjectsLen w = 0 \<and> WorldObjects w = []) \<and>
   \<not> seekable (openPipe bad_offset_file) \<and>
   fst (main (openPipe bad_offset_file)) = Inl Exit1 \<and>
   fileOps (trace (snd (main (openPipe bad_offset_file)))) =
     replicate 15 (EvRead 4 4) @ [EvSeekFailed 61]"
proof -
  have h: "fst (parseHeader (openFile bad_offset_file)) =
     \<lparr>Version = 85, ObjectDataPos = 61, BlindObjectDataPos = 60, LightgridPos = 60,
      CollisionDataPos = 60, ParticleBlockerDataPos = 60, RenderDataPos = 60,
      PackerType = 1, PackerVersion = 2, Future = [11, 12, 13, 14, 15, 16]\<rparr>"
    by code_simp
  have hp: "fst (parseHeader (openPipe bad_offset_file)) =
     \<lparr>Version = 85, ObjectDataPos = 61, BlindObjectDataPos = 60, LightgridPos = 60,
      CollisionDataPos = 60, ParticleBlockerDataPos = 60, RenderDataPos = 60,
      PackerType = 1, PackerVersion = 2, Future = [11, 12, 13, 14, 15, 16]\<rparr>"
    by code_simp
  have tp: "fileOps (trace (snd (parseHeader (openPipe bad_offset_file)))) =
      replicate 15 (EvRead 4 4)"
    by code_simp
  have k: "seekable (openFile bad_offset_file)" "\<not> seekable (openPipe bad_offset_file)"
    "trace (openFile bad_offset_file) = []"
    "length (contents (openFile bad_offset_file)) = 60"
    by (simp_all add: openFile_def openPipe_def bad_offset_file_def)
  show ?thesis
    using offset_beyond_end [OF h [symmetric]] offset_beyond_end [OF hp [symmetric]]
    by (simp add: k tp)
qed

section \<open>Printing\<close>

text \<open>
  Against C9 as stated: on the empty file \<open>main\<close> prints eleven lines.
\<close>

theorem printing_counterexample:
  "prints (trace (snd (main (openFile [])))) =
     [OutHeader zero_HEADER,
      OutValue (nl @ ''Parsing WorldObjectsData @'') 0,
      OutValue (nl @ ''World Objects:'') 0,
      OutValue (nl @ ''Parsing BlindObjectsData @'') 0, OutUint32 0,
      OutValue (nl @ ''Parsing LightgridData @'') 0,
      OutValue (nl @ ''Parsing Physics/CollisionData @'') 0, OutUint32 0,
      OutValue (nl @ ''Parsing ParticleBlockerData @'') 0, OutUint32 0,
      OutValue (nl @ ''Parsing RenderData @'') 0]"
  by code_simp

text \<open>
  C9, amended.  Decoding prints while it parses: when \<open>main\<close> returns, the header,
  the count of world objects, the property count of every world object, every
  property, and the three \<open>uint32\<close> values read for the blind objects, the physics
  data and the particle blockers have each been written to standard output.
\<close>

theorem main_prints:
  assumes "main s = (Inr w, s')"
  shows "EvPrint (OutHeader (fst (parseHeader s))) \<in> set (trace s') \<and>
         EvPrint (OutValue (nl @ ''World Objects:'') (WorldObjectsLen w)) \<in> set (trace s') \<and>
         (\<forall>wo \<in> set (WorldObjects w).
            EvPrint (OutPropertyCount (ObjectType wo) (PropertiesLen wo)) \<in> set (trace s')) \<and>
         (\<forall>wo \<in> set (WorldObjects w). \<forall>p \<in> set (Properties wo).
            EvPrint (OutProperty p) \<in> set (trace s')) \<and>
         EvPrint (OutUint32 (BlindObjectDataSize w)) \<in> set (trace s') \<and>
         EvPrint (OutUint32 (PhysicsDataLen w)) \<in> set (trace s') \<and>
         EvPrint (OutUint32 (ParticleBlockerDataLen w)) \<in> set (trace s')"
proof -
  define h where "h = fst (parseHeader s)"
  define n where "n = peek32 0 (unat (ObjectDataPos h)) (contents s)"
  define d where "d = decodeWorldObjects (unat n) (objectsState s)"
  have k: "seekable s"
    using assms by (rule main_Inr_seekable)
  have w: "w = zero_WORLD\<lparr>WorldObjectsLen := n, WorldObjects := fst d,
           BlindObjectDataSize := peek32 0 (unat (BlindObjectDataPos h)) (contents s),
           PhysicsDataLen := peek32 0 (unat (CollisionDataPos h)) (contents s),
           ParticleBlockerDataLen := peek32 0 (unat (ParticleBlockerDataPos h)) (contents s)\<rparr>"
    and tr: "trace s' = trace (snd d) @ laterSections h (contents s)"
    using main_seekable [OF k] assms
    by (simp_all add: Let_def h_def n_def d_def)
  have grows: "set (trace (objectsState s)) \<subseteq> set (trace (snd d))"
    unfolding d_def by (rule trace_grows [OF readsOnly_decodeWorldObjects])
  have "EvPrint (OutHeader h) \<in> set (trace (objectsState s))"
    and "EvPrint (OutValue (nl @ ''World Objects:'') n) \<in> set (trace (objectsState s))"
    by (simp_all add: objectsState_trace h_def n_def)
  with grows have a: "EvPrint (OutHeader h) \<in> set (trace s')"
    and b: "EvPrint (OutValue (nl @ ''World Objects:'') n) \<in> set (trace s')"
    unfolding tr by auto
  have c: "EvPrint (OutProperty p) \<in> set (trace s')"
    if "wo \<in> set (fst d)" and "p \<in> set (Properties wo)" for wo p
    using decodeWorldObjects_printed [OF that [unfolded d_def]]
    unfolding tr d_def by simp
  have c': "EvPrint (OutPropertyCount (ObjectType wo) (PropertiesLen wo)) \<in> set (trace s')"
    if "wo \<in> set (fst d)" for wo
    using decodeWorldObjects_count_printed [OF that [unfolded d_def]]
    unfolding tr d_def by simp
  have e: "EvPrint (OutUint32 (peek32 0 (unat (BlindObjectDataPos h)) (contents s))) \<in> set (trace s')"
    "EvPrint (OutUint32 (peek32 0 (unat (CollisionDataPos h)) (contents s))) \<in> set (trace s')"
    "EvPrint (OutUint32 (peek32 0 (unat (ParticleBlockerDataPos h)) (contents s))) \<in> set (trace s')"
    unfolding tr by (simp_all add: laterSections_def)
  show ?thesis
    using a b c c' e by (simp add: w h_def)
qed

text \<open>The theorem at the world file.\<close>

theorem main_prints_witness:
  "\<exists>w s'. main (openFile world_file) = (Inr w, s') \<and>
     map (map DataTypeFlag \<circ> Properties) (WorldObjects w) = [[3], [5]] \<and>
     (\<forall>wo \<in> set (WorldObjects w).
        EvPrint (OutPropertyCount (ObjectType wo) (PropertiesLen wo)) \<in> set (trace s')) \<and>
     (\<forall>wo \<in> set (WorldObjects w). \<forall>p \<in> set (Properties wo).
        EvPrint (OutProperty p) \<in> set (trace s')) \<and>
     EvPrint (OutUint32 5) \<in> set (trace s')"
proof -
  have k: "seekable (openFile world_file)"
    by (simp add: openFile_def)
  obtain w s' where m: "main (openFile world_file) = (Inr w, s')"
    using main_seekable [OF k] by (simp add: Let_def)
  have "case fst (main (openFile world_file)) of
          Inr w \<Rightarrow> map (map DataTypeFlag \<circ> Properties) (WorldObjects w) = [[3], [5]] \<and>
            BlindObjectDataSize w = 5
        | Inl e \<Rightarrow> False"
    by code_simp
  with m main_prints [OF m] show ?thesis
    by auto
qed

section \<open>The fields that stay zero\<close>

text \<open>
  C10.  When \<open>main\<close> returns, the document is the zero \<open>WORLD\<close> but for five
  fields: the list of world objects and its count, and the \<open>uint32\<close> values read at the
  offsets of the blind objects, the physics data and the particle blockers.  Every other
  field is zero.  For the light grid and the render data only the seek is done: the
  seek to the light grid is followed at once by the seek to the physics data, and the
  seek to the render data is the last file operation.
\<close>

theorem untouched_fields:
  assumes "main s = (Inr w, s')" and "h = fst (parseHeader s)" and "bs = contents s"
  shows "w = zero_WORLD\<lparr>WorldObjectsLen := WorldObjectsLen w, WorldObjects := WorldObjects w,
           BlindObjectDataSize := BlindObjectDataSize w, PhysicsDataLen := PhysicsDataLen w,
           ParticleBlockerDataLen := ParticleBlockerDataLen w\<rparr> \<and>
         WorldObjectsLen w = peek32 0 (unat (ObjectDataPos h)) bs \<and>
         length (WorldObjects w) = unat (WorldObjectsLen w) \<and>
         BlindObjectDataSize w = peek32 0 (unat (BlindObjectDataPos h)) bs \<and>
         PhysicsDataLen w = peek32 0 (unat (CollisionDataPos h)) bs \<and>
         ParticleBlockerDataLen w = peek32 0 (unat (ParticleBlockerDataPos h)) bs \<and>
         (\<exists>t. fileOps (trace s') = t @
            [EvSeek (unat (LightgridPos h)),
             EvSeek (unat (CollisionDataPos h)), EvRead 4 (got 4 (unat (CollisionDataPos h)) bs),
             EvSeek (unat (ParticleBlockerDataPos h)),
             EvRead 4 (got 4 (unat (ParticleBlockerDataPos h)) bs),
             EvSeek (unat (RenderDataPos h))])"
proof -
  define n where "n = peek32 0 (unat (ObjectDataPos h)) bs"
  define d where "d = decodeWorldObjects (unat n) (objectsState s)"
  have k: "seekable s"
    using assms(1) by (rule main_Inr_seekable)
  have w: "w = zero_WORLD\<lparr>WorldObjectsLen := n, WorldObjects := fst d,
           BlindObjectDataSize := peek32 0 (unat (BlindObjectDataPos h)) bs,
           PhysicsDataLen := peek32 0 (unat (CollisionDataPos h)) bs,
           ParticleBlockerDataLen := peek32 0 (unat (ParticleBlockerDataPos h)) bs\<rparr>"
    and tr: "trace s' = trace (snd d) @ laterSections h bs"
    using main_seekable [OF k] assms(1)
    by (simp_all add: Let_def assms(2,3) n_def d_def)
  have "fileOps (trace s') = (fileOps (trace (snd d)) @
      [EvSeek (unat (BlindObjectDataPos h)), EvRead 4 (got 4 (unat (BlindObjectDataPos h)) bs)]) @
            [EvSeek (unat (LightgridPos h)),
             EvSeek (unat (CollisionDataPos h)), EvRead 4 (got 4 (unat (CollisionDataPos h)) bs),
             EvSeek (unat (ParticleBlockerDataPos h)),
             EvRead 4 (got 4 (unat (ParticleBlockerDataPos h)) bs),
             EvSeek (unat (RenderDataPos h))]"
    unfolding tr by (simp add: fileOps_append laterSections_def)
  then have ops: "\<exists>t. fileOps (trace s') = t @
            [EvSeek (unat (LightgridPos h)),
             EvSeek (unat (CollisionDataPos h)), EvRead 4 (got 4 (unat (CollisionDataPos h)) bs),
             EvSeek (unat (ParticleBlockerDataPos h)),
             EvRead 4 (got 4 (unat (ParticleBlockerDataPos h)) bs),
             EvSeek (unat (RenderDataPos h))]"
    by (rule exI)
  have len: "length (fst d) = unat n"
    by (simp add: d_def length_decodeWorldObjects)
  show ?thesis
    using ops len by (simp add: w zero_WORLD_def n_def)
qed

text \<open>The theorem at the world file.\<close>

theorem untouched_fields_witness:
  "\<exists>w s'. main (openFile world_file) = (Inr w, s') \<and>
     w = zero_WORLD\<lparr>WorldObjectsLen := WorldObjectsLen w, WorldObjects := WorldObjects w,
           BlindObjectDataSize := BlindObjectDataSize w, PhysicsDataLen := PhysicsDataLen w,
           ParticleBlockerDataLen := ParticleBlockerDataLen w\<rparr> \<and>
     WorldObjectsLen w = 2 \<and> length (WorldObjects w) = 2 \<and>
     BlindObjectDataSize w = 5 \<and> PhysicsDataLen w = 3 \<and> ParticleBlockerDataLen w = 2 \<and>
     (\<exists>t. fileOps (trace s') = t @
        [EvSeek 111, EvSeek 115, EvRead 4 4, EvSeek 119, EvRead 4 4, EvSeek 123])"
proof -
  have k: "seekable (openFile world_file)"
    by (simp add: openFile_def)
  obtain w s' where m: "main (openFile world_file) = (Inr w, s')"
    using main_seekable [OF k] by (simp add: Let_def)
  have h: "fst (parseHeader (openFile world_file)) =
     \<lparr>Version = 85, ObjectDataPos = 60, BlindObjectDataPos = 107, LightgridPos = 111,
      CollisionDataPos = 115, ParticleBlockerDataPos = 119, RenderDataPos = 123,
      PackerType = 1, PackerVersion = 2, Future = [11, 12, 13, 14, 15, 16]\<rparr>"
    by code_simp
  have c: "contents (openFile world_file) = world_file"
    by (simp add: openFile_def)
  have v: "peek32 0 60 world_file = 2"
    "peek32 0 107 world_file = 5" "peek32 0 115 world_file = 3" "peek32 0 119 world_file = 2"
    "got 4 115 world_file = 4" "got 4 119 world_file = 4"
    by code_simp+
  note u = untouched_fields [OF m h [symmetric] c [symmetric]]
  have e: "w = zero_WORLD\<lparr>WorldObjectsLen := WorldObjectsLen w, WorldObjects := WorldObjects w,
           BlindObjectDataSize := BlindObjectDataSize w, PhysicsDataLen := PhysicsDataLen w,
           ParticleBlockerDataLen := ParticleBlockerDataLen w\<rparr>"
    using u by (rule conjunct1)
  have f1: "WorldObjectsLen w = 2" and f2: "length (WorldObjects w) = 2"
    and f3: "BlindObjectDataSize w = 5" and f4: "PhysicsDataLen w = 3"
    and f5: "ParticleBlockerDataLen w = 2"
    and f6: "\<exists>t. fileOps (trace s') = t @
        [EvSeek 111, EvSeek 115, EvRead 4 4, EvSeek 119, EvRead 4 4, EvSeek 123]"
    using u by (simp_all add: v)
  show ?thesis
    by (intro exI [of _ w] exI [of _ s'] conjI) (rule m e f1 f2 f3 f4 f5 f6)+
qed

end
